theory Spec2Isabelle
  imports Main
begin

section \<open>Errors and results\<close>

text \<open>
  Every exception the Python code (or a torch primitive it calls) can raise is a value
  of \<open>error\<close>; a fallible computation returns \<open>error + 'a\<close> with \<open>Inl\<close> the
  exception.  \<open>KeyError\<close> and \<open>AssertionError\<close> carry the message given in the source.
\<close>

datatype error =
    RuntimeError
  | IndexError
  | TypeError
  | ValueError
  | KeyError string
  | AssertionError string

definition bindE :: "error + 'a \<Rightarrow> ('a \<Rightarrow> error + 'b) \<Rightarrow> error + 'b" where
  "bindE m f = (case m of Inl e \<Rightarrow> Inl e | Inr x \<Rightarrow> f x)"

text \<open>A Python comprehension or generator over fallible calls: the first exception
  ends it.\<close>

fun mapE :: "('a \<Rightarrow> error + 'b) \<Rightarrow> 'a list \<Rightarrow> error + 'b list" where
  "mapE f [] = Inr []"
| "mapE f (x # xs) = bindE (f x) (\<lambda>y. bindE (mapE f xs) (\<lambda>ys. Inr (y # ys)))"

section \<open>Tensors\<close>

text \<open>
  A tensor is its shape and its elements in row-major (contiguous) order.  The element
  type is a parameter: the data movement the network performs (\<open>narrow\<close>, \<open>cat\<close>,
  \<open>repeat\<close>) never looks at the elements.  \<open>torch.Tensor()\<close> is the one-dimensional
  tensor with no element, of shape \<open>[0]\<close>.
\<close>

datatype 'a tensor = Tensor (shape: "nat list") (vals: "'a list")

definition wf_tensor :: "'a tensor \<Rightarrow> bool" where
  "wf_tensor t \<longleftrightarrow> length (vals t) = prod_list (shape t)"

definition EMPTY_TENSOR :: "'a tensor" where
  "EMPTY_TENSOR = Tensor [0] []"

text \<open>\<open>blocks n k xs\<close>: the first \<open>n\<close> consecutive pieces of length \<open>k\<close> of \<open>xs\<close>.\<close>

definition blocks :: "nat \<Rightarrow> nat \<Rightarrow> 'a list \<Rightarrow> 'a list list" where
  "blocks n k xs = map (\<lambda>i. take k (drop (i * k) xs)) [0..<n]"

text \<open>A dimension argument of torch: \<open>-r \<le> d < r\<close> for a tensor of rank \<open>r\<close>, negative
  values counting from the end; anything else is an IndexError.\<close>

definition wrap_dim :: "nat \<Rightarrow> int \<Rightarrow> error + nat" where
  "wrap_dim r d =
     (if - int r \<le> d \<and> d < int r then Inr (nat (if d < 0 then d + int r else d))
      else Inl IndexError)"

definition tensor_size :: "'a tensor \<Rightarrow> int \<Rightarrow> error + nat" where
  "tensor_size t d = bindE (wrap_dim (length (shape t)) d) (\<lambda>k. Inr (shape t ! k))"

text \<open>
  \<open>Tensor.narrow(dim, start, length)\<close>: the slice \<open>[start, start + length)\<close> along \<open>dim\<close>.
  torch refuses a negative length, a start outside \<open>[-size, size]\<close> and a slice that
  runs past the end; a negative start counts from the end.
\<close>

definition narrow :: "'a tensor \<Rightarrow> int \<Rightarrow> int \<Rightarrow> int \<Rightarrow> error + 'a tensor" where
  "narrow t d start len =
     bindE (wrap_dim (length (shape t)) d) (\<lambda>k.
       let sz = shape t ! k;
           inner = prod_list (drop (Suc k) (shape t));
           outer = prod_list (take k (shape t))
       in if len < 0 then Inl RuntimeError
          else if start < - int sz \<or> int sz < start then Inl IndexError
          else let s = (if start < 0 then start + int sz else start)
               in if int sz < s + len then Inl RuntimeError
                  else Inr (Tensor ((shape t)[k := nat len])
                         (concat (map (\<lambda>b. take (nat len * inner) (drop (nat s * inner) b))
                                      (blocks outer (sz * inner) (vals t))))))"

text \<open>
  \<open>torch.cat(tensors, dim)\<close>.  Tensors of shape \<open>[0]\<close> are skipped (the legacy rule the
  disabled skip connections rely on); the others must have one rank and agree in every
  dimension but \<open>dim\<close>.  With nothing left the result is the empty tensor.
\<close>

definition cat_compatible :: "nat \<Rightarrow> nat list \<Rightarrow> nat list \<Rightarrow> bool" where
  "cat_compatible k s s' \<longleftrightarrow> length s' = length s \<and> s'[k := 0] = s[k := 0]"

definition cat :: "'a tensor list \<Rightarrow> int \<Rightarrow> error + 'a tensor" where
  "cat ts d =
     (if ts = [] then Inl RuntimeError
      else case filter (\<lambda>t. shape t \<noteq> [0]) ts of
        [] \<Rightarrow> Inr EMPTY_TENSOR
      | t0 # rest \<Rightarrow>
          bindE (wrap_dim (length (shape t0)) d) (\<lambda>k.
            if \<not> list_all (\<lambda>t. cat_compatible k (shape t0) (shape t)) rest
            then Inl RuntimeError
            else let inner = prod_list (drop (Suc k) (shape t0));
                     outer = prod_list (take k (shape t0));
                     us = t0 # rest
                 in Inr (Tensor ((shape t0)[k := sum_list (map (\<lambda>t. shape t ! k) us)])
                      (concat (map (\<lambda>i. concat (map (\<lambda>t.
                          take (shape t ! k * inner) (drop (i * (shape t ! k * inner)) (vals t))) us))
                        [0..<outer])))))"

section \<open>Channel split: size_splits, AnOtherSwapNetSplitter, AnOtherSwapNetAssembler\<close>

text \<open>
  \<open>size_splits\<close> computes with float32 tensors: \<open>torch.Tensor(split_sizes)\<close> rounds every
  size to float32, \<open>torch.sum\<close> adds them in float32, and the comparison with the
  integer \<open>dim_size\<close> converts that integer to float32 too.  \<open>f32 n\<close> is the natural
  number \<open>n\<close> rounded to the nearest float32 (24 significant bits, ties to even); every
  natural number up to \<open>2^24\<close> is a float32.  Overflow to infinity (from \<open>2^128\<close> on) is
  left out.
\<close>

fun bitlen :: "nat \<Rightarrow> nat" where
  "bitlen n = (if n = 0 then 0 else Suc (bitlen (n div 2)))"

definition f32 :: "nat \<Rightarrow> nat" where
  "f32 x =
     (if x \<le> 2 ^ 24 then x
      else let e = bitlen x - 24; q = x div 2 ^ e; r = x mod 2 ^ e
           in (if 2 ^ e < 2 * r \<or> (2 * r = 2 ^ e \<and> odd q) then q + 1 else q) * 2 ^ e)"

text \<open>
  \<open>torch.sum\<close> of a float32 tensor: the partial sums are float32 values.  The order in
  which the backend adds is its own; the model adds from left to right.  (The results
  below bound the values so that every order gives the exact sum, or use lists of at
  most two sizes, where the order cannot matter.)
\<close>

definition f32_sum :: "nat list \<Rightarrow> nat" where
  "f32_sum xs = foldl (\<lambda>acc x. f32 (acc + x)) 0 xs"

text \<open>
  \<open>torch.cumsum\<close> of a float32 tensor on the CPU: the running sum is accumulated in
  double precision (exact here: below \<open>2^53\<close>) and each output is rounded to float32.
\<close>

fun cumsum :: "nat \<Rightarrow> nat list \<Rightarrow> nat list" where
  "cumsum acc [] = []"
| "cumsum acc (x # xs) = f32 (acc + x) # cumsum (acc + x) xs"

text \<open>
  \<open>size_splits(tensor, split_sizes, dim)\<close>.  The sizes of chunks are natural numbers.
  The chunks are built in order and the first \<open>narrow\<close> that raises ends the call;
  \<open>int(start)\<close> reads a float32 running sum back as an integer, and \<open>int(length)\<close> is
  the size as it was given.
\<close>

definition size_splits :: "'a tensor \<Rightarrow> nat list \<Rightarrow> int \<Rightarrow> error + 'a tensor list" where
  "size_splits tensor split_sizes dim0 =
     (let dim = (if dim0 < 0 then dim0 + int (length (shape tensor)) else dim0)
      in bindE (tensor_size tensor dim) (\<lambda>dim_size.
           if f32 dim_size \<noteq> f32_sum (map f32 split_sizes)
           then Inl (KeyError ''Sum of split sizes exceeds tensor dim'')
           else let splits = butlast (cumsum 0 (map f32 (0 # split_sizes)))
                in mapE (\<lambda>(start, len). narrow tensor dim (int start) (int len))
                     (zip splits split_sizes)))"

text \<open>The scene factor of a latent may be absent (Python's \<open>None\<close>): an option.\<close>

definition AnOtherSwapNetSplitter_forward ::
  "'a tensor \<Rightarrow> error + ('a tensor option \<times> 'a tensor)" where
  "AnOtherSwapNetSplitter_forward latent =
     bindE (size_splits latent [3, 509] 1) (\<lambda>chunks.
       case chunks of
         [light_latent, scene_latent] \<Rightarrow> Inr (Some scene_latent, light_latent)
       | _ \<Rightarrow> Inl ValueError)"

definition AnOtherSwapNetAssembler_forward ::
  "'a tensor option \<Rightarrow> 'a tensor \<Rightarrow> error + 'a tensor" where
  "AnOtherSwapNetAssembler_forward scene_latent light_latent =
     (case scene_latent of
        None \<Rightarrow> Inl TypeError
      | Some scene \<Rightarrow> cat [light_latent, scene] 1)"


section \<open>The object store\<close>

text \<open>
  The skip connections are Python lists: mutable objects that several names can refer
  to (the encoder's attribute, the list \<open>SwapNet.forward\<close> keeps, the argument the
  decoder pops from).  A list is therefore a reference into \<open>heap\<close>, and creating a list
  (\<open>[]\<close>, \<open>[x]\<close>) allocates the next free reference.

  The numeric kernels are opaque: \<open>kernel i m s x\<close> stands for the elements that the
  \<open>i\<close>-th constructed convolution block (with its learned parameters) computes in
  training mode (\<open>m\<close> true) or evaluation mode from the input \<open>x\<close> for an output of shape
  \<open>s\<close>, and \<open>dot\<close> for the floating-point sum of products of two feature planes.
\<close>

record 'a world =
  heap :: "nat \<Rightarrow> 'a tensor list"
  next_ref :: nat
  next_obj :: nat
  kernel :: "nat \<Rightarrow> bool \<Rightarrow> nat list \<Rightarrow> 'a tensor \<Rightarrow> 'a list"
  dot :: "'a list \<Rightarrow> 'a list \<Rightarrow> 'a"

definition new_list :: "'a tensor list \<Rightarrow> 'a world \<Rightarrow> nat \<times> 'a world" where
  "new_list xs w = (next_ref w, w\<lparr>heap := (heap w)(next_ref w := xs), next_ref := next_ref w + 1\<rparr>)"

definition list_append :: "nat \<Rightarrow> 'a tensor \<Rightarrow> 'a world \<Rightarrow> 'a world" where
  "list_append r x w = w\<lparr>heap := (heap w)(r := heap w r @ [x])\<rparr>"

text \<open>\<open>xs += ys\<close> on lists extends the object \<open>xs\<close> in place.\<close>

definition list_extend :: "nat \<Rightarrow> nat \<Rightarrow> 'a world \<Rightarrow> 'a world" where
  "list_extend r src w = w\<lparr>heap := (heap w)(r := heap w r @ heap w src)\<rparr>"

definition list_pop :: "nat \<Rightarrow> 'a world \<Rightarrow> error + ('a tensor \<times> 'a world)" where
  "list_pop r w =
     (if heap w r = [] then Inl IndexError
      else Inr (last (heap w r), w\<lparr>heap := (heap w)(r := butlast (heap w r))\<rparr>))"

text \<open>\<open>xs[i] = v\<close>: a negative index counts from the end, an index out of range raises.\<close>

definition list_setitem :: "nat \<Rightarrow> int \<Rightarrow> 'a tensor \<Rightarrow> 'a world \<Rightarrow> error + 'a world" where
  "list_setitem r i v w =
     (let n = int (length (heap w r))
      in if - n \<le> i \<and> i < n
         then Inr (w\<lparr>heap := (heap w)(r := (heap w r)[nat (if i < 0 then i + n else i) := v])\<rparr>)
         else Inl IndexError)"

text \<open>A comprehension whose element constructor changes the store.\<close>

fun build_list :: "(nat \<Rightarrow> 'w \<Rightarrow> 'm \<times> 'w) \<Rightarrow> nat list \<Rightarrow> 'w \<Rightarrow> 'm list \<times> 'w" where
  "build_list f [] w = ([], w)"
| "build_list f (i # is) w =
     (let (m, w1) = f i w; (ms, w2) = build_list f is w1 in (m # ms, w2))"

text \<open>\<open>range(n)\<close> for a Python integer \<open>n\<close>: empty when \<open>n \<le> 0\<close>.\<close>

definition py_range :: "int \<Rightarrow> nat list" where
  "py_range n = [0..<nat n]"

section \<open>Convolution blocks\<close>

text \<open>
  Every \<open>nn.Sequential\<close> of the source is an optional bilinear \<open>Upsample(scale_factor=2)\<close>,
  one \<open>Conv2d\<close>, an optional \<open>BatchNorm2d\<close> and an activation.  Its shape behaviour is the
  documented one of \<open>Conv2d\<close> on a 4-D input: the channel count must be \<open>c_in\<close>, the
  padded input must not be smaller than the kernel, and each spatial size \<open>n\<close> becomes
  \<open>(n + 2 * padding - ksize) div stride + 1\<close>.  A module is constructed in training
  mode, and in training mode \<open>BatchNorm2d\<close> raises a ValueError on an input with a single
  value per channel (batch size times height times width equal to one).
\<close>

datatype activation = PReLU | Softplus | Sigmoid

record 'a conv_block =
  ident :: nat
  up2 :: bool
  c_in :: nat
  c_out :: nat
  ksize :: nat
  stride :: nat
  padding :: nat
  bnorm :: bool
  act :: activation
  training :: bool
  fn :: "bool \<Rightarrow> nat list \<Rightarrow> 'a tensor \<Rightarrow> 'a list"

definition new_block ::
  "bool \<Rightarrow> nat \<Rightarrow> nat \<Rightarrow> nat \<Rightarrow> nat \<Rightarrow> nat \<Rightarrow> bool \<Rightarrow> activation \<Rightarrow> 'a world
     \<Rightarrow> 'a conv_block \<times> 'a world" where
  "new_block up cin cout k s p bn a w =
     (\<lparr>ident = next_obj w, up2 = up, c_in = cin, c_out = cout, ksize = k, stride = s,
       padding = p, bnorm = bn, act = a, training = True, fn = kernel w (next_obj w)\<rparr>,
      w\<lparr>next_obj := next_obj w + 1\<rparr>)"

definition conv_out :: "'a conv_block \<Rightarrow> nat \<Rightarrow> nat" where
  "conv_out b n = ((if up2 b then 2 * n else n) + 2 * padding b - ksize b) div stride b + 1"

definition block_forward :: "'a conv_block \<Rightarrow> 'a tensor \<Rightarrow> error + 'a tensor" where
  "block_forward b x =
     (case shape x of
        [N, C, H, W] \<Rightarrow>
          if C \<noteq> c_in b
             \<or> (if up2 b then 2 * H else H) + 2 * padding b < ksize b
             \<or> (if up2 b then 2 * W else W) + 2 * padding b < ksize b
          then Inl RuntimeError
          else (let s = [N, c_out b, conv_out b H, conv_out b W]
                in if bnorm b \<and> training b \<and> N * conv_out b H * conv_out b W = 1
                   then Inl ValueError
                   else Inr (Tensor s (fn b (training b) s x)))
      | _ \<Rightarrow> Inl RuntimeError)"

text \<open>\<open>nn.Module.train(mode)\<close> on a block; \<open>eval()\<close> is \<open>train(False)\<close>.\<close>

definition block_train :: "bool \<Rightarrow> 'a conv_block \<Rightarrow> 'a conv_block" where
  "block_train mode b = b\<lparr>training := mode\<rparr>"

section \<open>Encoder\<close>

subsection \<open>SkipConnectionProvider\<close>

text \<open>
  The attribute \<open>self.skip_connections\<close> of a provider is a reference; each provider
  record below holds it in its \<open>_skip\<close> field, and a forward pass returns the module
  with the attribute as it was last bound.
\<close>

definition reset_skip_connections :: "'a world \<Rightarrow> nat \<times> 'a world" where
  "reset_skip_connections w = new_list [] w"

subsection \<open>ImageEncoding\<close>

record 'a ImageEncoding =
  ie_skip :: nat
  ie_conv1 :: "'a conv_block"
  ie_conv2 :: "'a conv_block"

definition ImageEncoding_init ::
  "nat \<Rightarrow> nat \<Rightarrow> nat \<Rightarrow> 'a world \<Rightarrow> 'a ImageEncoding \<times> 'a world" where
  "ImageEncoding_init in_channels enc_channels out_channels w =
     (let (r, w1) = new_list [] w;
          (conv1, w2) = new_block False in_channels (enc_channels - in_channels) 7 1 3 True PReLU w1;
          (conv2, w3) = new_block False enc_channels out_channels 3 2 1 True PReLU w2
      in (\<lparr>ie_skip = r, ie_conv1 = conv1, ie_conv2 = conv2\<rparr>, w3))"

definition ImageEncoding_forward ::
  "'a ImageEncoding \<Rightarrow> 'a tensor \<Rightarrow> 'a world \<Rightarrow> error + ('a tensor \<times> 'a ImageEncoding \<times> 'a world)" where
  "ImageEncoding_forward self img w =
     bindE (block_forward (ie_conv1 self) img) (\<lambda>x.
     bindE (cat [x, img] 1) (\<lambda>encoded_image.
       let (r, w1) = new_list [encoded_image] w
       in bindE (block_forward (ie_conv2 self) encoded_image) (\<lambda>y.
            Inr (y, self\<lparr>ie_skip := r\<rparr>, w1))))"

subsection \<open>EncDoubleConv\<close>

record 'a EncDoubleConv =
  edc_skip :: nat
  edc_conv1 :: "'a conv_block"
  edc_conv2 :: "'a conv_block"

definition EncDoubleConv_init ::
  "nat \<Rightarrow> nat \<Rightarrow> 'a world \<Rightarrow> 'a EncDoubleConv \<times> 'a world" where
  "EncDoubleConv_init in_channels out_channels w =
     (let (r, w1) = new_list [] w;
          (conv1, w2) = new_block False in_channels in_channels 3 1 1 True PReLU w1;
          (conv2, w3) = new_block False in_channels out_channels 3 2 1 True PReLU w2
      in (\<lparr>edc_skip = r, edc_conv1 = conv1, edc_conv2 = conv2\<rparr>, w3))"

definition EncDoubleConv_forward ::
  "'a EncDoubleConv \<Rightarrow> 'a tensor \<Rightarrow> 'a world \<Rightarrow> error + ('a tensor \<times> 'a EncDoubleConv \<times> 'a world)" where
  "EncDoubleConv_forward self x w =
     (let (r, w1) = reset_skip_connections w;
          w2 = list_append r x w1
      in bindE (block_forward (edc_conv1 self) x) (\<lambda>x1.
           let w3 = list_append r x1 w2
           in bindE (block_forward (edc_conv2 self) x1) (\<lambda>y.
                Inr (y, self\<lparr>edc_skip := r\<rparr>, w3))))"

subsection \<open>EncBottleneckConv\<close>

record 'a EncBottleneckConv =
  ebc_skip :: nat
  ebc_convolutions :: "'a conv_block list"

text \<open>One block is constructed; the list holds \<open>depth - 1\<close> references to it
  (\<open>single_conv * (depth - 1)\<close>, empty when \<open>depth \<le> 1\<close>).\<close>

definition build_bottleneck_convolutions ::
  "nat \<Rightarrow> int \<Rightarrow> 'a world \<Rightarrow> 'a conv_block list \<times> 'a world" where
  "build_bottleneck_convolutions in_channels depth w =
     (let (single_conv, w1) = new_block False in_channels in_channels 3 1 1 True PReLU w
      in (replicate (nat (depth - 1)) single_conv, w1))"

definition EncBottleneckConv_init ::
  "nat \<Rightarrow> int \<Rightarrow> 'a world \<Rightarrow> 'a EncBottleneckConv \<times> 'a world" where
  "EncBottleneckConv_init in_channels depth w =
     (let (r, w1) = new_list [] w;
          (convolutions, w2) = build_bottleneck_convolutions in_channels depth w1
      in (\<lparr>ebc_skip = r, ebc_convolutions = convolutions\<rparr>, w2))"

fun bottleneck_loop ::
  "nat \<Rightarrow> 'a conv_block list \<Rightarrow> 'a tensor \<Rightarrow> 'a world \<Rightarrow> error + ('a tensor \<times> 'a world)" where
  "bottleneck_loop r [] x w = Inr (x, w)"
| "bottleneck_loop r (m # ms) x w =
     (let w1 = list_append r x w
      in bindE (block_forward m x) (\<lambda>y. bottleneck_loop r ms y w1))"

definition EncBottleneckConv_forward ::
  "'a EncBottleneckConv \<Rightarrow> 'a tensor \<Rightarrow> 'a world
     \<Rightarrow> error + ('a tensor \<times> 'a EncBottleneckConv \<times> 'a world)" where
  "EncBottleneckConv_forward self x w =
     (let (r, w1) = reset_skip_connections w
      in bindE (bottleneck_loop r (ebc_convolutions self) x w1) (\<lambda>(y, w2).
           Inr (y, self\<lparr>ebc_skip := r\<rparr>, w2)))"

subsection \<open>Encoder\<close>

record 'a Encoder =
  enc_skip :: nat
  disabled_skip_connections :: "int list"
  image_encoder :: "'a ImageEncoding"
  double_convolutions :: "'a EncDoubleConv list"
  bottleneck :: "'a EncBottleneckConv"
  n_skip_connections :: int

definition build_encoder_convolutions_block ::
  "int \<Rightarrow> 'a world \<Rightarrow> 'a EncDoubleConv list \<times> 'a world" where
  "build_encoder_convolutions_block n w =
     build_list (\<lambda>i. EncDoubleConv_init (64 * 2 ^ i) (64 * 2 ^ (i + 1))) (py_range n) w"

definition Encoder_init ::
  "int \<Rightarrow> int \<Rightarrow> int list option \<Rightarrow> 'a world \<Rightarrow> 'a Encoder \<times> 'a world" where
  "Encoder_init n_double_conv bottleneck_depth disabled w =
     (let (r, w1) = new_list [] w;
          (ie, w2) = ImageEncoding_init 3 32 64 w1;
          (dcs, w3) = build_encoder_convolutions_block n_double_conv w2;
          (bn, w4) = EncBottleneckConv_init 512 bottleneck_depth w3
      in (\<lparr>enc_skip = r,
           disabled_skip_connections = (case disabled of None \<Rightarrow> [] | Some ds \<Rightarrow> ds),
           image_encoder = ie, double_convolutions = dcs, bottleneck = bn,
           n_skip_connections = 1 + n_double_conv * 2 + (bottleneck_depth - 1)\<rparr>, w4))"

fun double_conv_loop ::
  "nat \<Rightarrow> 'a EncDoubleConv list \<Rightarrow> 'a tensor \<Rightarrow> 'a world
     \<Rightarrow> error + ('a tensor \<times> 'a EncDoubleConv list \<times> 'a world)" where
  "double_conv_loop r [] x w = Inr (x, [], w)"
| "double_conv_loop r (double_conv # rest) x w =
     bindE (EncDoubleConv_forward double_conv x w) (\<lambda>(y, dc, w1).
       let w2 = list_extend r (edc_skip dc) w1
       in bindE (double_conv_loop r rest y w2) (\<lambda>(z, dcs, w3). Inr (z, dc # dcs, w3)))"

definition Encoder_forward ::
  "'a Encoder \<Rightarrow> 'a tensor \<Rightarrow> 'a world \<Rightarrow> error + ('a tensor \<times> 'a Encoder \<times> 'a world)" where
  "Encoder_forward self img w =
     (let (r, w1) = reset_skip_connections w
      in bindE (ImageEncoding_forward (image_encoder self) img w1) (\<lambda>(x, ie, w2).
           let w3 = list_extend r (ie_skip ie) w2
           in bindE (double_conv_loop r (double_convolutions self) x w3) (\<lambda>(x, dcs, w4).
                bindE (EncBottleneckConv_forward (bottleneck self) x w4) (\<lambda>(x, bn, w5).
                  let w6 = list_extend r (ebc_skip bn) w5
                  in Inr (x, self\<lparr>enc_skip := r, image_encoder := ie,
                                   double_convolutions := dcs, bottleneck := bn\<rparr>, w6)))))"

fun disable_loop :: "nat \<Rightarrow> int list \<Rightarrow> 'a world \<Rightarrow> error + 'a world" where
  "disable_loop r [] w = Inr w"
| "disable_loop r (i # is) w =
     bindE (list_setitem r i EMPTY_TENSOR w) (\<lambda>w1. disable_loop r is w1)"

definition Encoder_get_skip_connections ::
  "'a Encoder \<Rightarrow> 'a world \<Rightarrow> error + (nat \<times> 'a world)" where
  "Encoder_get_skip_connections self w =
     bindE (disable_loop (enc_skip self) (disabled_skip_connections self) w) (\<lambda>w1.
       Inr (enc_skip self, w1))"

definition get_number_of_possible_skip_connections :: "'a Encoder \<Rightarrow> int" where
  "get_number_of_possible_skip_connections self = n_skip_connections self"

text \<open>\<open>nn.Module.train(mode)\<close> on an encoder sets the mode of every block in it.\<close>

definition Encoder_train :: "bool \<Rightarrow> 'a Encoder \<Rightarrow> 'a Encoder" where
  "Encoder_train mode self =
     self\<lparr>image_encoder :=
            (image_encoder self)\<lparr>ie_conv1 := block_train mode (ie_conv1 (image_encoder self)),
                                   ie_conv2 := block_train mode (ie_conv2 (image_encoder self))\<rparr>,
          double_convolutions :=
            map (\<lambda>dc. dc\<lparr>edc_conv1 := block_train mode (edc_conv1 dc),
                           edc_conv2 := block_train mode (edc_conv2 dc)\<rparr>)
                (double_convolutions self),
          bottleneck :=
            (bottleneck self)\<lparr>ebc_convolutions :=
               map (block_train mode) (ebc_convolutions (bottleneck self))\<rparr>\<rparr>"


section \<open>Decoder\<close>

subsection \<open>SkipConnectionReceiver\<close>

text \<open>The disabled indices of a receiver are the given ones shifted by its \<open>start\<close>
  (a numpy array minus a scalar); \<open>None\<close> gives the empty array.  The membership test
  of \<open>channels_in_layer\<close> holds when some entry equals the layer number.\<close>

definition SkipConnectionReceiver_init :: "int list option \<Rightarrow> int \<Rightarrow> int list" where
  "SkipConnectionReceiver_init disabled start =
     (case disabled of None \<Rightarrow> [] | Some ds \<Rightarrow> map (\<lambda>d. d - start) ds)"

definition channels_in_layer :: "int list \<Rightarrow> int \<Rightarrow> nat \<Rightarrow> nat \<Rightarrow> nat" where
  "channels_in_layer disabled layer_number layer_channels skip_connection_channels =
     (if layer_number \<in> set disabled then layer_channels
      else layer_channels + skip_connection_channels)"

definition channel_concat :: "'a tensor \<Rightarrow> 'a tensor \<Rightarrow> error + 'a tensor" where
  "channel_concat x y = cat [x, y] 1"

subsection \<open>DecBottleneckConv\<close>

record 'a DecBottleneckConv =
  dbc_disabled :: "int list"
  dbc_depth :: int
  dbc_encode :: "'a conv_block"
  dbc_initial_conv :: "'a conv_block"
  dbc_convs :: "'a conv_block list"
  dbc_out_conv :: "'a conv_block"

definition DecBottleneckConv_init ::
  "nat \<Rightarrow> nat \<Rightarrow> nat \<Rightarrow> int \<Rightarrow> int list option \<Rightarrow> 'a world
     \<Rightarrow> error + ('a DecBottleneckConv \<times> 'a world)" where
  "DecBottleneckConv_init in_channels envmap_h envmap_w depth disabled w =
     (let expected_channels = envmap_h * envmap_w
      in if \<not> depth \<ge> 2 then Inl (AssertionError ''Depth should be not smaller than 3'')
         else if in_channels \<noteq> expected_channels
         then Inl (AssertionError
                ''UpBottleneck input has {in_channels} channels, expected {expected_channels}'')
         else
           let ds = SkipConnectionReceiver_init disabled 0;
               half_in_channels = in_channels div 2;
               (encode, w1) = new_block False in_channels half_in_channels 3 1 1 True PReLU w;
               initial_in_channels = channels_in_layer ds 0 half_in_channels in_channels;
               (initial_conv, w2) =
                  new_block False initial_in_channels in_channels 3 1 1 True PReLU w1;
               (convs, w3) =
                  build_list (\<lambda>i. new_block False
                      (channels_in_layer ds (int i + 1) in_channels in_channels)
                      in_channels 3 1 1 True PReLU) (py_range (depth - 3)) w2;
               out_conv_in_channels = channels_in_layer ds (depth - 2) in_channels in_channels;
               (out_conv, w4) =
                  new_block True out_conv_in_channels half_in_channels 3 1 1 True PReLU w3
           in Inr (\<lparr>dbc_disabled = ds, dbc_depth = depth, dbc_encode = encode,
                    dbc_initial_conv = initial_conv, dbc_convs = convs,
                    dbc_out_conv = out_conv\<rparr>, w4))"

text \<open>In \<open>conv(channel_concat(x, skip_connections.pop()))\<close> the pop comes first, then the
  concatenation, then the block.\<close>

definition pop_concat_conv ::
  "'a conv_block \<Rightarrow> 'a tensor \<Rightarrow> nat \<Rightarrow> 'a world \<Rightarrow> error + ('a tensor \<times> 'a world)" where
  "pop_concat_conv conv x skip_connections w =
     bindE (list_pop skip_connections w) (\<lambda>(s, w1).
       bindE (channel_concat x s) (\<lambda>c.
         bindE (block_forward conv c) (\<lambda>y. Inr (y, w1))))"

fun dec_convs_loop ::
  "'a conv_block list \<Rightarrow> 'a tensor \<Rightarrow> nat \<Rightarrow> 'a world \<Rightarrow> error + ('a tensor \<times> 'a world)" where
  "dec_convs_loop [] x skip_connections w = Inr (x, w)"
| "dec_convs_loop (conv # convs) x skip_connections w =
     bindE (pop_concat_conv conv x skip_connections w) (\<lambda>(y, w1).
       dec_convs_loop convs y skip_connections w1)"

definition DecBottleneckConv_forward ::
  "'a DecBottleneckConv \<Rightarrow> 'a tensor \<Rightarrow> nat \<Rightarrow> 'a world \<Rightarrow> error + ('a tensor \<times> 'a world)" where
  "DecBottleneckConv_forward self x0 skip_connections w =
     bindE (block_forward (dbc_encode self) x0) (\<lambda>x.
       bindE (pop_concat_conv (dbc_initial_conv self) x skip_connections w) (\<lambda>(x, w1).
         bindE (dec_convs_loop (dbc_convs self) x skip_connections w1) (\<lambda>(x, w2).
           pop_concat_conv (dbc_out_conv self) x skip_connections w2)))"

subsection \<open>DecDoubleConv\<close>

record 'a DecDoubleConv =
  ddc_disabled :: "int list"
  ddc_conv1 :: "'a conv_block"
  ddc_conv2 :: "'a conv_block"

definition DecDoubleConv_init ::
  "nat \<Rightarrow> nat \<Rightarrow> int list option \<Rightarrow> int \<Rightarrow> 'a world \<Rightarrow> 'a DecDoubleConv \<times> 'a world" where
  "DecDoubleConv_init in_channels out_channels disabled start w =
     (let ds = SkipConnectionReceiver_init disabled start;
          conv1_in_channels = channels_in_layer ds 0 in_channels in_channels;
          (conv1, w1) = new_block False conv1_in_channels in_channels 3 1 1 True PReLU w;
          conv2_in_channels = channels_in_layer ds 1 in_channels in_channels;
          (conv2, w2) = new_block True conv2_in_channels out_channels 3 1 1 True PReLU w1
      in (\<lparr>ddc_disabled = ds, ddc_conv1 = conv1, ddc_conv2 = conv2\<rparr>, w2))"

definition DecDoubleConv_forward ::
  "'a DecDoubleConv \<Rightarrow> 'a tensor \<Rightarrow> nat \<Rightarrow> 'a world \<Rightarrow> error + ('a tensor \<times> 'a world)" where
  "DecDoubleConv_forward self x0 skip_connections w =
     bindE (pop_concat_conv (ddc_conv1 self) x0 skip_connections w) (\<lambda>(x, w1).
       pop_concat_conv (ddc_conv2 self) x skip_connections w1)"

subsection \<open>Output\<close>

record 'a Output =
  out_disabled :: "int list"
  out_block :: "'a conv_block"

definition Output_init ::
  "nat \<Rightarrow> nat \<Rightarrow> nat \<Rightarrow> int list option \<Rightarrow> int \<Rightarrow> 'a world \<Rightarrow> 'a Output \<times> 'a world" where
  "Output_init in_channels out_channels kernel_size disabled start w =
     (let ds = SkipConnectionReceiver_init disabled start;
          output_in_channels = channels_in_layer ds 0 in_channels in_channels;
          (blk, w1) = new_block False output_in_channels out_channels kernel_size 1
                        (kernel_size div 2) False Sigmoid w
      in (\<lparr>out_disabled = ds, out_block = blk\<rparr>, w1))"

definition Output_forward :: "'a Output \<Rightarrow> 'a tensor \<Rightarrow> 'a tensor \<Rightarrow> error + 'a tensor" where
  "Output_forward self x encoded_img =
     bindE (channel_concat x encoded_img) (\<lambda>c. block_forward (out_block self) c)"

subsection \<open>Decoder\<close>

record 'a Decoder =
  dec_bottleneck :: "'a DecBottleneckConv"
  dec_double_convolutions :: "'a DecDoubleConv list"
  dec_output :: "'a Output"

definition build_decoder_convolutions_block ::
  "int \<Rightarrow> int list option \<Rightarrow> int \<Rightarrow> 'a world \<Rightarrow> 'a DecDoubleConv list \<times> 'a world" where
  "build_decoder_convolutions_block n disabled start w =
     build_list (\<lambda>i. DecDoubleConv_init (256 div 2 ^ i) (256 div 2 ^ (i + 1)) disabled
                        (start + 2 * int i)) (py_range n) w"

definition Decoder_init ::
  "int \<Rightarrow> int \<Rightarrow> nat \<Rightarrow> int list option \<Rightarrow> 'a world \<Rightarrow> error + ('a Decoder \<times> 'a world)" where
  "Decoder_init n_double_conv bottleneck_depth last_kernel_size disabled w =
     bindE (DecBottleneckConv_init 512 16 32 bottleneck_depth disabled w) (\<lambda>(bn, w1).
       let double_convs_start = bottleneck_depth - 1;
           (dcs, w2) = build_decoder_convolutions_block n_double_conv disabled
                         double_convs_start w1;
           output_start = double_convs_start + n_double_conv * 2;
           (out, w3) = Output_init 32 3 last_kernel_size disabled output_start w2
       in Inr (\<lparr>dec_bottleneck = bn, dec_double_convolutions = dcs, dec_output = out\<rparr>, w3))"

fun dec_double_conv_loop ::
  "'a DecDoubleConv list \<Rightarrow> 'a tensor \<Rightarrow> nat \<Rightarrow> 'a world \<Rightarrow> error + ('a tensor \<times> 'a world)" where
  "dec_double_conv_loop [] x skip_connections w = Inr (x, w)"
| "dec_double_conv_loop (double_conv # rest) x skip_connections w =
     bindE (DecDoubleConv_forward double_conv x skip_connections w) (\<lambda>(y, w1).
       dec_double_conv_loop rest y skip_connections w1)"

definition Decoder_forward ::
  "'a Decoder \<Rightarrow> 'a tensor \<Rightarrow> nat \<Rightarrow> 'a world \<Rightarrow> error + ('a tensor \<times> 'a world)" where
  "Decoder_forward self latent skip_connections w =
     bindE (DecBottleneckConv_forward (dec_bottleneck self) latent skip_connections w) (\<lambda>(x, w1).
       bindE (dec_double_conv_loop (dec_double_convolutions self) x skip_connections w1) (\<lambda>(x, w2).
         bindE (list_pop skip_connections w2) (\<lambda>(encoded_img, w3).
           bindE (Output_forward (dec_output self) x encoded_img) (\<lambda>relit.
             Inr (relit, w3)))))"


section \<open>Weighted pooling and tiling: IlluminationSwapNetSplitter, IlluminationSwapNetAssembler\<close>

text \<open>\<open>Tensor.repeat\<close> reads a tensor of rank below four as one with leading dimensions
  of size one.\<close>

definition as_4d :: "nat list \<Rightarrow> error + nat list" where
  "as_4d s = (if length s \<le> 4 then Inr (replicate (4 - length s) 1 @ s) else Inl RuntimeError)"

text \<open>\<open>t.repeat((1, k, 1, 1))\<close>: the channels of every batch entry, \<open>k\<close> times over.\<close>

definition repeat_channels :: "nat \<Rightarrow> 'a tensor \<Rightarrow> error + 'a tensor" where
  "repeat_channels k t =
     bindE (as_4d (shape t)) (\<lambda>s.
       case s of
         [N, C, H, W] \<Rightarrow>
           Inr (Tensor [N, k * C, H, W]
                 (concat (map (\<lambda>b. concat (replicate k b)) (blocks N (C * H * W) (vals t)))))
       | _ \<Rightarrow> Inl RuntimeError)"

text \<open>\<open>t.repeat((1, 1, k, k))\<close>: every feature plane tiled \<open>k\<close> by \<open>k\<close> times.\<close>

definition repeat_spatial :: "nat \<Rightarrow> 'a tensor \<Rightarrow> error + 'a tensor" where
  "repeat_spatial k t =
     bindE (as_4d (shape t)) (\<lambda>s.
       case s of
         [N, C, H, W] \<Rightarrow>
           Inr (Tensor [N, C, k * H, k * W]
                 (concat (map (\<lambda>plane.
                     concat (replicate k
                       (concat (map (\<lambda>row. concat (replicate k row)) (blocks H W plane)))))
                   (blocks (N * C) (H * W) (vals t)))))
       | _ \<Rightarrow> Inl RuntimeError)"

text \<open>\<open>(p * c).sum(dim=(2, 3), keepdim=True)\<close> for two 4-D tensors of one shape: per batch
  entry and channel, the sum of products of the two planes.\<close>

definition weighted_sum ::
  "('a list \<Rightarrow> 'a list \<Rightarrow> 'a) \<Rightarrow> 'a tensor \<Rightarrow> 'a tensor \<Rightarrow> error + 'a tensor" where
  "weighted_sum d p c =
     (if shape p \<noteq> shape c then Inl RuntimeError
      else case shape p of
        [N, C, H, W] \<Rightarrow>
          Inr (Tensor [N, C, 1, 1]
                (map (\<lambda>(a, b). d a b)
                   (zip (blocks (N * C) (H * W) (vals p)) (blocks (N * C) (H * W) (vals c)))))
      | _ \<Rightarrow> Inl RuntimeError)"

record 'a WeightedPooling =
  wp_conv :: "'a conv_block"
  wp_dot :: "'a list \<Rightarrow> 'a list \<Rightarrow> 'a"

definition WeightedPooling_init ::
  "nat \<Rightarrow> nat \<Rightarrow> nat \<Rightarrow> 'a world \<Rightarrow> error + ('a WeightedPooling \<times> 'a world)" where
  "WeightedPooling_init in_channels envmap_h envmap_w w =
     (let expected_channels = envmap_h * envmap_w
      in if in_channels \<noteq> expected_channels
         then Inl (AssertionError
                ''WeightedPooling input has {in_channels} channels, expected {expected_channels}'')
         else let out_channels = 4 * in_channels;
                  (conv, w1) = new_block False in_channels out_channels 3 1 1 True Softplus w
              in Inr (\<lparr>wp_conv = conv, wp_dot = dot w\<rparr>, w1))"

definition WeightedPooling_forward :: "'a WeightedPooling \<Rightarrow> 'a tensor \<Rightarrow> error + 'a tensor" where
  "WeightedPooling_forward self x0 =
     bindE (block_forward (wp_conv self) x0) (\<lambda>x.
       let channels = shape x ! 1;
           split_point = 3 * (channels div 4)
       in bindE (narrow x 1 0 (int split_point)) (\<lambda>envmap_predictions.
          bindE (narrow x 1 (int split_point) (int (channels - split_point))) (\<lambda>confidence.
          bindE (repeat_channels 3 confidence) (\<lambda>repeated.
            weighted_sum (wp_dot self) envmap_predictions repeated))))"

record 'a Tiling =
  tl_size :: nat
  tl_encode :: "'a conv_block"

definition Tiling_init :: "nat \<Rightarrow> nat \<Rightarrow> nat \<Rightarrow> 'a world \<Rightarrow> 'a Tiling \<times> 'a world" where
  "Tiling_init size0 in_channels out_channels w =
     (let (encode, w1) = new_block False in_channels out_channels 3 1 1 True PReLU w
      in (\<lparr>tl_size = size0, tl_encode = encode\<rparr>, w1))"

definition Tiling_forward :: "'a Tiling \<Rightarrow> 'a tensor \<Rightarrow> error + 'a tensor" where
  "Tiling_forward self x =
     bindE (repeat_spatial (tl_size self) x) (\<lambda>tiled. block_forward (tl_encode self) tiled)"

record 'a IlluminationSwapNetSplitter =
  weighted_pool :: "'a WeightedPooling"

definition IlluminationSwapNetSplitter_init ::
  "'a world \<Rightarrow> error + ('a IlluminationSwapNetSplitter \<times> 'a world)" where
  "IlluminationSwapNetSplitter_init w =
     bindE (WeightedPooling_init 512 16 32 w) (\<lambda>(wp, w1). Inr (\<lparr>weighted_pool = wp\<rparr>, w1))"

definition IlluminationSwapNetSplitter_forward ::
  "'a IlluminationSwapNetSplitter \<Rightarrow> 'a tensor \<Rightarrow> error + ('a tensor option \<times> 'a tensor)" where
  "IlluminationSwapNetSplitter_forward self latent =
     bindE (WeightedPooling_forward (weighted_pool self) latent) (\<lambda>pred_env_map.
       let scene_latent = None; light_latent = pred_env_map
       in Inr (scene_latent, light_latent))"

record 'a IlluminationSwapNetAssembler =
  tile :: "'a Tiling"

definition IlluminationSwapNetAssembler_init ::
  "'a world \<Rightarrow> 'a IlluminationSwapNetAssembler \<times> 'a world" where
  "IlluminationSwapNetAssembler_init w =
     (let (t, w1) = Tiling_init 16 1536 512 w in (\<lparr>tile = t\<rparr>, w1))"

definition IlluminationSwapNetAssembler_forward ::
  "'a IlluminationSwapNetAssembler \<Rightarrow> 'a tensor option \<Rightarrow> 'a tensor \<Rightarrow> error + 'a tensor" where
  "IlluminationSwapNetAssembler_forward self scene_latent light_latent =
     Tiling_forward (tile self) light_latent"

section \<open>SwapNet\<close>

text \<open>
  The splitter and the assembler are any two modules with the forward signatures below;
  the network holds their forward functions.  They are functions of their arguments
  (the strategies of the source keep no state between calls).
\<close>

record 'a SwapNet =
  sn_encode :: "'a Encoder"
  sn_split :: "'a tensor \<Rightarrow> error + ('a tensor option \<times> 'a tensor)"
  sn_assemble :: "'a tensor option \<Rightarrow> 'a tensor \<Rightarrow> error + 'a tensor"
  sn_decode :: "'a Decoder"

definition SwapNet_init ::
  "('a tensor \<Rightarrow> error + ('a tensor option \<times> 'a tensor))
     \<Rightarrow> ('a tensor option \<Rightarrow> 'a tensor \<Rightarrow> error + 'a tensor)
     \<Rightarrow> int \<Rightarrow> int \<Rightarrow> nat \<Rightarrow> int list option \<Rightarrow> 'a world
     \<Rightarrow> error + ('a SwapNet \<times> 'a world)" where
  "SwapNet_init splitter assembler n_double_conv bottleneck_depth last_kernel_size disabled w =
     (let ds = (case disabled of None \<Rightarrow> [] | Some d \<Rightarrow> d);
          (enc, w1) = Encoder_init n_double_conv bottleneck_depth (Some ds) w;
          n = get_number_of_possible_skip_connections enc;
          decoder_disabled_skip_connections = map (\<lambda>d. (n - 1) - d) ds
      in bindE (Decoder_init n_double_conv bottleneck_depth last_kernel_size
                  (Some decoder_disabled_skip_connections) w1) (\<lambda>(dec, w2).
           Inr (\<lparr>sn_encode = enc, sn_split = splitter, sn_assemble = assembler,
                  sn_decode = dec\<rparr>, w2)))"

definition SwapNet_forward ::
  "'a SwapNet \<Rightarrow> 'a tensor \<Rightarrow> 'a tensor \<Rightarrow> 'a tensor \<Rightarrow> 'a world
     \<Rightarrow> error + (('a tensor \<times> 'a tensor \<times> 'a tensor \<times> 'a tensor
                    \<times> 'a tensor option \<times> 'a tensor option \<times> 'a tensor option)
                  \<times> 'a SwapNet \<times> 'a world)" where
  "SwapNet_forward self img target groundtruth w =
     bindE (Encoder_forward (sn_encode self) img w) (\<lambda>(image_latent, enc1, w1).
     bindE (Encoder_get_skip_connections enc1 w1) (\<lambda>(image_skip_connections, w2).
     bindE (Encoder_forward enc1 target w2) (\<lambda>(target_latent, enc2, w3).
     bindE (Encoder_forward enc2 groundtruth w3) (\<lambda>(groundtruth_latent, enc3, w4).
     bindE (sn_split self image_latent) (\<lambda>(image_scene_latent, image_light_latent).
     bindE (sn_split self target_latent) (\<lambda>(target_scene_latent, target_light_latent).
     bindE (sn_split self groundtruth_latent) (\<lambda>(groundtruth_scene_latent, groundtruth_light_latent).
     bindE (sn_assemble self image_scene_latent target_light_latent) (\<lambda>swapped_latent.
     bindE (Decoder_forward (sn_decode self) swapped_latent image_skip_connections w4) (\<lambda>(relit_image, w5).
       Inr ((relit_image,
             image_light_latent, target_light_latent, groundtruth_light_latent,
             image_scene_latent, target_scene_latent, groundtruth_scene_latent),
            self\<lparr>sn_encode := enc3\<rparr>, w5))))))))))"

definition AnOtherSwapNet_init ::
  "nat \<Rightarrow> int list option \<Rightarrow> 'a world \<Rightarrow> error + ('a SwapNet \<times> 'a world)" where
  "AnOtherSwapNet_init last_kernel_size disabled w =
     SwapNet_init AnOtherSwapNetSplitter_forward AnOtherSwapNetAssembler_forward
       3 4 last_kernel_size disabled w"

definition AnOtherSwapNet_forward ::
  "'a SwapNet \<Rightarrow> 'a tensor \<Rightarrow> 'a tensor \<Rightarrow> 'a tensor \<Rightarrow> 'a world
     \<Rightarrow> error + (('a tensor \<times> 'a tensor \<times> 'a tensor \<times> 'a tensor
                    \<times> 'a tensor option \<times> 'a tensor option \<times> 'a tensor option)
                  \<times> 'a SwapNet \<times> 'a world)" where
  "AnOtherSwapNet_forward self img target ground_truth w =
     SwapNet_forward self img target ground_truth w"

section \<open>GroundtruthEnvmapSwapNet\<close>

definition GroundtruthEnvmapSwapNet_init ::
  "int list option \<Rightarrow> 'a world \<Rightarrow> error + ('a SwapNet \<times> 'a world)" where
  "GroundtruthEnvmapSwapNet_init disabled w =
     bindE (IlluminationSwapNetSplitter_init w) (\<lambda>(splitter, w1).
       let (assembler, w2) = IlluminationSwapNetAssembler_init w1
       in SwapNet_init (IlluminationSwapNetSplitter_forward splitter)
            (IlluminationSwapNetAssembler_forward assembler) 3 4 3 disabled w2)"

definition GroundtruthEnvmapSwapNet_forward ::
  "'a SwapNet \<Rightarrow> 'a tensor \<Rightarrow> 'a tensor \<Rightarrow> 'a tensor \<Rightarrow> 'a world
     \<Rightarrow> error + (('a tensor \<times> 'a tensor \<times> 'a tensor) \<times> 'a SwapNet \<times> 'a world)" where
  "GroundtruthEnvmapSwapNet_forward self img target groundtruth w =
     bindE (Encoder_forward (sn_encode self) img w) (\<lambda>(image_latent, enc1, w1).
     bindE (Encoder_get_skip_connections enc1 w1) (\<lambda>(image_skip_connections, w2).
     bindE (sn_split self image_latent) (\<lambda>(scene1, predicted_image_envmap).
     bindE (Encoder_forward enc1 target w2) (\<lambda>(target_latent, enc2, w3).
     bindE (sn_split self target_latent) (\<lambda>(scene2, predicted_target_envmap).
     bindE (sn_assemble self None predicted_target_envmap) (\<lambda>swapped_latent.
     bindE (Decoder_forward (sn_decode self) swapped_latent image_skip_connections w3) (\<lambda>(relit_image, w4).
       Inr ((relit_image, predicted_image_envmap, predicted_target_envmap),
            self\<lparr>sn_encode := enc2\<rparr>, w4))))))))"

section \<open>Concrete instances\<close>

text \<open>
  A store to construct and run networks in: no list allocated yet, and numeric kernels
  that return zeros of the requested shape.  \<open>zeros s\<close> is the all-zero tensor of shape \<open>s\<close>.
\<close>

definition zero_kernel :: "nat \<Rightarrow> bool \<Rightarrow> nat list \<Rightarrow> int tensor \<Rightarrow> int list" where
  "zero_kernel i m s x = replicate (prod_list s) 0"

definition zero_dot :: "int list \<Rightarrow> int list \<Rightarrow> int" where
  "zero_dot a b = 0"

definition world0 :: "int world" where
  "world0 = \<lparr>heap = (\<lambda>r. []), next_ref = 0, next_obj = 0, kernel = zero_kernel, dot = zero_dot\<rparr>"

definition zeros :: "nat list \<Rightarrow> int tensor" where
  "zeros s = Tensor s (replicate (prod_list s) 0)"

text \<open>A latent of shape \<open>[1, 512, 1, 1]\<close> whose channels hold \<open>0, 1, \<dots>, 511\<close>.\<close>

definition ramp_latent :: "int tensor" where
  "ramp_latent = Tensor [1, 512, 1, 1] (map int [0..<512])"

text \<open>
  Networks constructed in \<open>world0\<close>: the channel-split network and the ground-truth
  environment-map network in their default configuration, each paired with the store
  its construction leaves.
\<close>

definition another_net :: "int SwapNet \<times> int world" where
  "another_net = projr (AnOtherSwapNet_init 3 None world0)"

definition groundtruth_net :: "int SwapNet \<times> int world" where
  "groundtruth_net = projr (GroundtruthEnvmapSwapNet_init None world0)"

text \<open>
  Iterating one function \<open>k\<close> times, the current input pushed onto a stack before each
  application: what a bottleneck of \<open>k\<close> stages sharing one module is said to compute.
\<close>

fun iterate_pushing ::
  "('a tensor \<Rightarrow> error + 'a tensor) \<Rightarrow> nat \<Rightarrow> 'a tensor \<Rightarrow> 'a tensor list
     \<Rightarrow> error + ('a tensor \<times> 'a tensor list)" where
  "iterate_pushing f 0 x stack = Inr (x, stack)"
| "iterate_pushing f (Suc k) x stack = bindE (f x) (\<lambda>y. iterate_pushing f k y (stack @ [x]))"

section \<open>Layer specifications\<close>

text \<open>\<open>conv_spec b up cin cout k s p\<close>: the block \<open>b\<close> was constructed with these
  hyper-parameters.  \<open>half_up\<close> is the size a stride-2, kernel-3, padding-1 convolution
  gives.  \<open>result_shape\<close> reads the shape of the tensor a forward pass returns.\<close>

definition conv_spec :: "'a conv_block \<Rightarrow> bool \<Rightarrow> nat \<Rightarrow> nat \<Rightarrow> nat \<Rightarrow> nat \<Rightarrow> nat \<Rightarrow> bool" where
  "conv_spec b up cin cout k s p \<longleftrightarrow>
     up2 b = up \<and> c_in b = cin \<and> c_out b = cout \<and> ksize b = k \<and> stride b = s \<and> padding b = p"

definition half_up :: "nat \<Rightarrow> nat" where
  "half_up n = (n + 1) div 2"

definition result_shape :: "error + ('a tensor \<times> 'b) \<Rightarrow> error + nat list" where
  "result_shape r = (case r of Inl e \<Rightarrow> Inl e | Inr (y, rest) \<Rightarrow> Inr (shape y))"

section \<open>Verification\<close>

lemma bindE_Inl [simp]: "bindE (Inl e) f = Inl e"
  by (simp add: bindE_def)

lemma bindE_Inr [simp]: "bindE (Inr x) f = f x"
  by (simp add: bindE_def)

lemma bindE_eq_Inr: "bindE m f = Inr y \<longleftrightarrow> (\<exists>x. m = Inr x \<and> f x = Inr y)"
  by (cases m) simp_all

lemma upt3: "[0..<3] = [0, 1, 2]"
  by (simp add: upt_rec)

lemmas init_defs = Encoder_init_def ImageEncoding_init_def EncDoubleConv_init_def
  EncBottleneckConv_init_def build_bottleneck_convolutions_def build_encoder_convolutions_block_def
  new_list_def new_block_def py_range_def world0_def
  SwapNet_init_def AnOtherSwapNet_init_def Decoder_init_def DecBottleneckConv_init_def
  DecDoubleConv_init_def Output_init_def build_decoder_convolutions_block_def
  SkipConnectionReceiver_init_def channels_in_layer_def get_number_of_possible_skip_connections_def
  GroundtruthEnvmapSwapNet_init_def IlluminationSwapNetSplitter_init_def IlluminationSwapNetAssembler_init_def
  WeightedPooling_init_def Tiling_init_def

lemmas fwd_defs = Encoder_forward_def ImageEncoding_forward_def EncDoubleConv_forward_def
  EncBottleneckConv_forward_def reset_skip_connections_def list_append_def list_extend_def
  block_forward_def conv_out_def cat_def wrap_dim_def cat_compatible_def zeros_def zero_kernel_def
  SwapNet_forward_def Encoder_get_skip_connections_def Decoder_forward_def DecBottleneckConv_forward_def
  DecDoubleConv_forward_def Output_forward_def pop_concat_conv_def list_pop_def channel_concat_def
  AnOtherSwapNetSplitter_forward_def AnOtherSwapNetAssembler_forward_def size_splits_def tensor_size_def narrow_def
  GroundtruthEnvmapSwapNet_forward_def IlluminationSwapNetSplitter_forward_def IlluminationSwapNetAssembler_forward_def
  WeightedPooling_forward_def Tiling_forward_def repeat_channels_def repeat_spatial_def weighted_sum_def as_4d_def

lemma blocks_0 [simp]: "blocks 0 k xs = []"
  by (simp add: blocks_def)

lemma blocks_Suc: "blocks (Suc n) k xs = take k xs # blocks n k (drop k xs)"
proof -
  have "[0..<Suc n] = 0 # map Suc [0..<n]"
    by (simp add: upt_conv_Cons map_Suc_upt del: upt_Suc)
  then show ?thesis
    by (simp add: blocks_def comp_def add.commute)
qed

lemma length_blocks [simp]: "length (blocks n k xs) = n"
  by (simp add: blocks_def)

lemma concat_blocks: "length xs = n * k \<Longrightarrow> concat (blocks n k xs) = xs"
proof (induction n arbitrary: xs)
  case 0
  then show ?case by simp
next
  case (Suc n)
  then have "length (drop k xs) = n * k" by simp
  then have "concat (blocks n k (drop k xs)) = drop k xs" by (rule Suc.IH)
  then show ?case by (simp add: blocks_Suc)
qed

lemma blocks_concat:
  "\<forall>b \<in> set bs. length b = k \<Longrightarrow> blocks (length bs) k (concat bs) = bs"
proof (induction bs)
  case Nil
  then show ?case by simp
next
  case (Cons b bs)
  then show ?case by (simp add: blocks_Suc)
qed

lemma blocks_lengths:
  "length xs = n * k \<Longrightarrow> \<forall>b \<in> set (blocks n k xs). length b = k"
proof (induction n arbitrary: xs)
  case 0
  then show ?case by simp
next
  case (Suc n)
  then have "length (drop k xs) = n * k" by simp
  from Suc.IH [OF this] Suc.prems show ?case by (simp add: blocks_Suc)
qed

lemma f32_exact: "x \<le> 2 ^ 24 \<Longrightarrow> f32 x = x"
  by (simp add: f32_def)

lemma f32_fold_exact:
  "a + sum_list xs \<le> 2 ^ 24 \<Longrightarrow> foldl (\<lambda>acc x. f32 (acc + x)) a xs = a + sum_list xs"
proof (induction xs arbitrary: a)
  case Nil
  then show ?case by simp
next
  case (Cons x xs)
  have "f32 (a + x) = a + x"
    using Cons.prems by (intro f32_exact) simp
  moreover have "(a + x) + sum_list xs \<le> 2 ^ 24"
    using Cons.prems by simp
  ultimately show ?case
    using Cons.IH [of "a + x"] by simp
qed

lemma map_f32_exact: "sum_list xs \<le> 2 ^ 24 \<Longrightarrow> map f32 xs = xs"
proof (induction xs)
  case Nil
  then show ?case by simp
next
  case (Cons x xs)
  then have "x \<le> 2 ^ 24" "sum_list xs \<le> 2 ^ 24" by simp_all
  then show ?case
    using Cons.IH by (simp add: f32_exact)
qed

lemma f32_sum_exact: "sum_list xs \<le> 2 ^ 24 \<Longrightarrow> f32_sum (map f32 xs) = sum_list xs"
  using f32_fold_exact [of 0 xs] by (simp add: f32_sum_def map_f32_exact)

lemma length_cumsum [simp]: "length (cumsum acc xs) = length xs"
  by (induction xs arbitrary: acc) simp_all

lemma cumsum_nth:
  "j < length xs \<Longrightarrow> acc + sum_list xs \<le> 2 ^ 24 \<Longrightarrow>
     cumsum acc xs ! j = acc + sum_list (take (Suc j) xs)"
proof (induction xs arbitrary: acc j)
  case Nil
  then show ?case by simp
next
  case (Cons x xs)
  have x: "f32 (acc + x) = acc + x"
    using Cons.prems(2) by (intro f32_exact) simp
  show ?case
  proof (cases j)
    case 0
    then show ?thesis using x by simp
  next
    case (Suc i)
    have "i < length xs" "(acc + x) + sum_list xs \<le> 2 ^ 24"
      using Cons.prems Suc by simp_all
    from Cons.IH [OF this] show ?thesis
      using Suc by simp
  qed
qed

lemma length_splits: "length (butlast (cumsum 0 (map f32 (0 # xs)))) = length xs"
  by (simp only: length_butlast length_cumsum length_map) simp

lemma splits_nth:
  assumes j: "j < length xs" and b: "sum_list xs \<le> 2 ^ 24"
  shows "butlast (cumsum 0 (map f32 (0 # xs))) ! j = sum_list (take j xs)"
proof -
  have m: "map f32 (0 # xs) = 0 # xs"
    using b map_f32_exact [of "0 # xs"] by simp
  have "j < length (butlast (cumsum 0 (0 # xs)))"
    using j by (simp only: length_butlast length_cumsum) simp
  then have "butlast (cumsum 0 (0 # xs)) ! j = cumsum 0 (0 # xs) ! j"
    by (rule nth_butlast)
  also have "\<dots> = sum_list (take j xs)"
    using j b cumsum_nth [of j "0 # xs" 0] by simp
  finally have r: "butlast (cumsum 0 (0 # xs)) ! j = sum_list (take j xs)" .
  show ?thesis
    unfolding m by (rule r)
qed

lemma mapE_Inr:
  "\<forall>x \<in> set xs. \<exists>y. f x = Inr y \<Longrightarrow>
   \<exists>ys. mapE f xs = Inr ys \<and> length ys = length xs \<and> (\<forall>j < length xs. f (xs ! j) = Inr (ys ! j))"
proof (induction xs)
  case Nil
  then show ?case by simp
next
  case (Cons x xs)
  then obtain y where y: "f x = Inr y" by auto
  from Cons obtain ys where ys: "mapE f xs = Inr ys" "length ys = length xs"
    "\<forall>j < length xs. f (xs ! j) = Inr (ys ! j)" by auto
  have "\<forall>j < length (x # xs). f ((x # xs) ! j) = Inr ((y # ys) ! j)"
    using y ys(3) by (auto simp: nth_Cons split: nat.splits)
  then show ?case using y ys by simp
qed


lemma blocks_nth: "i < n \<Longrightarrow> blocks n k xs ! i = take k (drop (i * k) xs)"
  by (simp add: blocks_def)

lemma take_drop_concat_map:
  assumes "\<forall>b \<in> set bs. length (f b) = k" and "i < length bs"
  shows "take k (drop (i * k) (concat (map f bs))) = f (bs ! i)"
proof -
  have "blocks (length (map f bs)) k (concat (map f bs)) = map f bs"
    by (rule blocks_concat) (use assms(1) in simp)
  then have "blocks (length bs) k (concat (map f bs)) ! i = map f bs ! i"
    by simp
  then show ?thesis
    using assms(2) by (simp add: blocks_nth)
qed

lemma wrap_dim_nat: "k < r \<Longrightarrow> wrap_dim r (int k) = Inr k"
  by (simp add: wrap_dim_def)

lemma narrow_ok:
  assumes "k < length (shape t)" and "0 \<le> s" and "0 \<le> l" and "s + l \<le> int (shape t ! k)"
  shows "narrow t (int k) s l =
     Inr (Tensor ((shape t)[k := nat l])
       (concat (map (\<lambda>b. take (nat l * prod_list (drop (Suc k) (shape t)))
                           (drop (nat s * prod_list (drop (Suc k) (shape t))) b))
          (blocks (prod_list (take k (shape t)))
                  (shape t ! k * prod_list (drop (Suc k) (shape t))) (vals t)))))"
  using assms by (simp add: narrow_def wrap_dim_nat Let_def)

lemma split_4d:
  assumes "shape x = [N, 512, H, W]"
  shows "size_splits x [3, 509] 1 =
     mapE (\<lambda>(start, len). narrow x 1 start len) [(0, 3), (3, 509)]"
  using assms by (simp add: size_splits_def tensor_size_def wrap_dim_def f32_def f32_sum_def)

text \<open>
  Claim C4.  For every well-formed latent \<open>x\<close> of shape \<open>[N, 512, H, W]\<close> the channel-split
  strategy returns light = channels \<open>[0, 3)\<close> of shape \<open>[N, 3, H, W]\<close> and scene = channels
  \<open>[3, 512)\<close> of shape \<open>[N, 509, H, W]\<close>, and assembling the two, light first, gives back
  \<open>x\<close> itself: same shape, same elements in the same order.
\<close>

theorem channel_split_roundtrip:
  assumes wf: "wf_tensor x" and sh: "shape x = [N, 512, H, W]"
  shows "\<exists>scene light.
           AnOtherSwapNetSplitter_forward x = Inr (Some scene, light)
         \<and> narrow x 1 0 3 = Inr light \<and> narrow x 1 3 509 = Inr scene
         \<and> shape light = [N, 3, H, W] \<and> shape scene = [N, 509, H, W]
         \<and> AnOtherSwapNetAssembler_forward (Some scene) light = Inr x"
proof -
  define bs where "bs = blocks N (512 * (H * W)) (vals x)"
  define f where "f = (\<lambda>b :: 'a list. take (3 * (H * W)) b)"
  define g where "g = (\<lambda>b :: 'a list. take (509 * (H * W)) (drop (3 * (H * W)) b))"
  define light where "light = Tensor [N, 3, H, W] (concat (map f bs))"
  define scene where "scene = Tensor [N, 509, H, W] (concat (map g bs))"
  have len: "length (vals x) = N * (512 * (H * W))"
    using wf sh by (simp add: wf_tensor_def)
  have lbs: "length bs = N"
    by (simp add: bs_def)
  have bl: "\<forall>b \<in> set bs. length b = 512 * (H * W)"
    unfolding bs_def by (rule blocks_lengths [OF len])
  have nl: "narrow x 1 0 3 = Inr light"
    using narrow_ok [of 1 x 0 3] sh by (simp add: light_def f_def bs_def)
  have ns: "narrow x 1 3 509 = Inr scene"
    using narrow_ok [of 1 x 3 509] sh by (simp add: scene_def g_def bs_def)
  have split: "AnOtherSwapNetSplitter_forward x = Inr (Some scene, light)"
    by (simp add: AnOtherSwapNetSplitter_forward_def split_4d [OF sh] nl ns)
  have fl: "\<forall>b \<in> set bs. length (f b) = 3 * (H * W)"
    using bl by (simp add: f_def)
  have gl: "\<forall>b \<in> set bs. length (g b) = 509 * (H * W)"
    using bl by (simp add: g_def)
  have fg: "f b @ g b = b" if "b \<in> set bs" for b
  proof -
    have "length b = 3 * (H * W) + 509 * (H * W)"
      using bl that by simp
    then have "take (509 * (H * W)) (drop (3 * (H * W)) b) = drop (3 * (H * W)) b"
      by simp
    then show ?thesis
      by (simp add: f_def g_def)
  qed
  have piece: "take (3 * (H * W)) (drop (i * (3 * (H * W))) (concat (map f bs)))
             @ take (509 * (H * W)) (drop (i * (509 * (H * W))) (concat (map g bs))) = bs ! i"
    if "i < N" for i
  proof -
    have i: "i < length bs" using that lbs by simp
    show ?thesis
      using take_drop_concat_map [OF fl i] take_drop_concat_map [OF gl i] fg [of "bs ! i"] i
      by simp
  qed
  have "concat (map (\<lambda>i. take (3 * (H * W)) (drop (i * (3 * (H * W))) (concat (map f bs)))
             @ take (509 * (H * W)) (drop (i * (509 * (H * W))) (concat (map g bs)))) [0..<N])
        = concat (map (\<lambda>i. bs ! i) [0..<N])"
    using piece by (intro arg_cong [where f = concat] map_cong) simp_all
  also have "\<dots> = concat bs"
    using lbs map_nth [of bs] by simp
  also have "\<dots> = vals x"
    unfolding bs_def by (rule concat_blocks [OF len])
  finally have data: "concat (map (\<lambda>i. take (3 * (H * W)) (drop (i * (3 * (H * W))) (concat (map f bs)))
             @ take (509 * (H * W)) (drop (i * (509 * (H * W))) (concat (map g bs)))) [0..<N])
        = vals x" .
  have "cat [light, scene] 1 = Inr (Tensor [N, 512, H, W] (vals x))"
    using data by (simp add: cat_def light_def scene_def wrap_dim_def cat_compatible_def)
  then have asm: "AnOtherSwapNetAssembler_forward (Some scene) light = Inr x"
    using sh by (cases x) (simp add: AnOtherSwapNetAssembler_forward_def)
  show ?thesis
    using split nl ns asm by (intro exI [of _ scene] exI [of _ light]) (simp add: light_def scene_def)
qed


lemma wrap_dim_bound: "wrap_dim r d = Inr k \<Longrightarrow> k < r"
  by (auto simp: wrap_dim_def split: if_splits)

lemma narrow_wrapped: "wrap_dim (length (shape t)) d = Inr k \<Longrightarrow> narrow t d s l = narrow t (int k) s l"
  by (simp add: narrow_def wrap_dim_nat wrap_dim_bound)

lemma tensor_size_Inr:
  "tensor_size t d = Inr n \<longleftrightarrow> (\<exists>k. wrap_dim (length (shape t)) d = Inr k \<and> n = shape t ! k)"
  by (cases "wrap_dim (length (shape t)) d") (auto simp: tensor_size_def)

lemma sum_list_take_le:
  fixes xs :: "nat list"
  shows "sum_list (take j xs) \<le> sum_list xs"
proof -
  have "sum_list (take j xs) + sum_list (drop j xs) = sum_list xs"
    by (metis append_take_drop_id sum_list_append)
  then show ?thesis by linarith
qed

lemma sum_list_take_Suc:
  fixes xs :: "nat list"
  shows "j < length xs \<Longrightarrow> sum_list (take (Suc j) xs) = sum_list (take j xs) + xs ! j"
  by (simp add: take_Suc_conv_app_nth)


theorem channel_split_roundtrip_witness:
  "wf_tensor ramp_latent \<and> shape ramp_latent = [1, 512, 1, 1]
   \<and> (\<exists>scene light.
         AnOtherSwapNetSplitter_forward ramp_latent = Inr (Some scene, light)
       \<and> narrow ramp_latent 1 0 3 = Inr light \<and> narrow ramp_latent 1 3 509 = Inr scene
       \<and> shape light = [1, 3, 1, 1] \<and> shape scene = [1, 509, 1, 1]
       \<and> AnOtherSwapNetAssembler_forward (Some scene) light = Inr ramp_latent)"
proof -
  have wf: "wf_tensor ramp_latent"
    by (simp add: wf_tensor_def ramp_latent_def)
  have sh: "shape ramp_latent = [1, 512, 1, 1]"
    by (simp add: ramp_latent_def)
  from channel_split_roundtrip [OF wf sh] show ?thesis
    using wf sh by simp
qed


lemma bitlen_25:
  "bitlen 16777217 = 25" "bitlen 16777218 = 25" "bitlen 16777219 = 25" "bitlen 16777220 = 25"
  by simp_all

lemma f32_above:
  "f32 16777216 = 16777216" "f32 16777217 = 16777216" "f32 16777218 = 16777218"
  "f32 16777219 = 16777220" "f32 16777220 = 16777220"
  by (simp_all add: f32_def Let_def bitlen_25 del: bitlen.simps)

lemma f32_small: "f32 0 = 0" "f32 2 = 2"
  by (simp_all add: f32_def)

lemma narrow_prefix_of_constant:
  assumes "len \<le> n"
  shows "narrow (Tensor [1, n, 1, 1] (replicate n v)) 1 0 (int len)
           = Inr (Tensor [1, len, 1, 1] (replicate len v))"
proof -
  have "narrow (Tensor [1, n, 1, 1] (replicate n v)) (int (Suc 0)) 0 (int len)
           = Inr (Tensor [1, len, 1, 1] (replicate len v))"
    using assms by (subst narrow_ok) (simp_all add: blocks_Suc min_def)
  then show ?thesis by simp
qed


text \<open>
  Claim C7.  Whatever the number of double convolutions, the bottleneck depth and the
  disabled indices an encoder is constructed with, the count it reports is
  \<open>1 + 2 * n_double_conv + (bottleneck_depth - 1)\<close>.
\<close>

theorem number_of_possible_skip_connections:
  "get_number_of_possible_skip_connections
     (fst (Encoder_init n_double_conv bottleneck_depth disabled w))
   = 1 + 2 * n_double_conv + (bottleneck_depth - 1)"
  by (simp add: get_number_of_possible_skip_connections_def Encoder_init_def Let_def split_beta)

subsection \<open>The encoder and the store\<close>


lemma bindE_InrE:
  assumes "bindE m f = Inr y"
  obtains x where "m = Inr x" and "f x = Inr y"
  using assms by (cases m) simp_all

lemma list_pop_Inr:
  "list_pop r w = Inr (x, w') \<longleftrightarrow>
     heap w r \<noteq> [] \<and> x = last (heap w r) \<and> w' = w\<lparr>heap := (heap w)(r := butlast (heap w r))\<rparr>"
  by (auto simp: list_pop_def)

lemma ImageEncoding_forward_effect:
  assumes "ImageEncoding_forward ie img w = Inr (y, ie', w')"
  shows "ie' = ie\<lparr>ie_skip := next_ref w\<rparr> \<and> next_ref w' = next_ref w + 1
       \<and> (\<exists>e. heap w' = (heap w)(next_ref w := [e]))"
  using assms
  by (auto simp: ImageEncoding_forward_def new_list_def elim!: bindE_InrE)

lemma EncDoubleConv_forward_effect:
  assumes "EncDoubleConv_forward dc x w = Inr (y, dc', w')"
  shows "dc' = dc\<lparr>edc_skip := next_ref w\<rparr> \<and> next_ref w' = next_ref w + 1
       \<and> (\<exists>x1. heap w' = (heap w)(next_ref w := [x, x1]))"
  using assms
  by (auto simp: EncDoubleConv_forward_def reset_skip_connections_def new_list_def
        list_append_def Let_def elim!: bindE_InrE)

lemma bottleneck_loop_effect:
  "bottleneck_loop r ms x w = Inr (y, w') \<Longrightarrow>
     next_ref w' = next_ref w
   \<and> (\<exists>ts. length ts = length ms \<and> heap w' = (heap w)(r := heap w r @ ts))"
proof (induction ms arbitrary: x w)
  case Nil
  then have "w' = w" by simp
  then show ?case by (intro conjI exI [of _ "[]"]) simp_all
next
  case (Cons m ms)
  from Cons.prems obtain x1 where
    run: "bottleneck_loop r ms x1 (list_append r x w) = Inr (y, w')"
    by (auto simp: Let_def elim!: bindE_InrE)
  from Cons.IH [OF run] obtain ts where
    n: "next_ref w' = next_ref (list_append r x w)" and
    ts: "length ts = length ms"
        "heap w' = (heap (list_append r x w))(r := heap (list_append r x w) r @ ts)"
    by blast
  have "heap w' = (heap w)(r := heap w r @ (x # ts))"
    using ts(2) by (simp add: list_append_def)
  then show ?case
    using ts(1) n by (intro conjI exI [of _ "x # ts"]) (simp_all add: list_append_def)
qed

lemma EncBottleneckConv_forward_effect:
  assumes "EncBottleneckConv_forward bn x w = Inr (y, bn', w')"
  shows "bn' = bn\<lparr>ebc_skip := next_ref w\<rparr> \<and> next_ref w' = next_ref w + 1
       \<and> (\<exists>ts. length ts = length (ebc_convolutions bn) \<and> heap w' = (heap w)(next_ref w := ts))"
proof -
  from assms obtain w2 where
    run: "bottleneck_loop (next_ref w) (ebc_convolutions bn) x (snd (new_list [] w)) = Inr (y, w2)"
    and res: "bn' = bn\<lparr>ebc_skip := next_ref w\<rparr>" "w' = w2"
    by (auto simp: EncBottleneckConv_forward_def reset_skip_connections_def split_beta new_list_def
          elim!: bindE_InrE)
  from bottleneck_loop_effect [OF run] obtain ts where
    "next_ref w2 = next_ref (snd (new_list [] w))"
    "length ts = length (ebc_convolutions bn)"
    "heap w2 = (heap (snd (new_list [] w)))(next_ref w := heap (snd (new_list [] w)) (next_ref w) @ ts)"
    by blast
  then show ?thesis
    using res by (intro conjI exI [of _ ts]) (simp_all add: new_list_def)
qed


lemma double_conv_loop_effect:
  "double_conv_loop r dcs x w = Inr (y, dcs', w') \<Longrightarrow> r < next_ref w \<Longrightarrow>
     next_ref w' = next_ref w + length dcs
   \<and> (\<exists>ts. length ts = 2 * length dcs \<and> heap w' r = heap w r @ ts)
   \<and> (\<forall>q < next_ref w. q \<noteq> r \<longrightarrow> heap w' q = heap w q)
   \<and> map edc_conv1 dcs' = map edc_conv1 dcs \<and> map edc_conv2 dcs' = map edc_conv2 dcs"
proof (induction dcs arbitrary: x w dcs')
  case Nil
  then have "w' = w" "dcs' = []" by simp_all
  then show ?case by simp
next
  case (Cons dc rest)
  from Cons.prems(1) obtain y1 dc1 w1 ds where
    f: "EncDoubleConv_forward dc x w = Inr (y1, dc1, w1)" and
    l: "double_conv_loop r rest y1 (list_extend r (edc_skip dc1) w1) = Inr (y, ds, w')" and
    d: "dcs' = dc1 # ds"
    by (auto simp: Let_def split_beta elim!: bindE_InrE)
  from EncDoubleConv_forward_effect [OF f] obtain x1 where
    dc1: "dc1 = dc\<lparr>edc_skip := next_ref w\<rparr>" and
    n1: "next_ref w1 = next_ref w + 1" and
    h1: "heap w1 = (heap w)(next_ref w := [x, x1])"
    by blast
  let ?w2 = "list_extend r (edc_skip dc1) w1"
  have r: "r \<noteq> next_ref w"
    using Cons.prems(2) by simp
  have n2: "next_ref ?w2 = next_ref w + 1"
    using n1 by (simp add: list_extend_def)
  have h2: "heap ?w2 = (heap w)(next_ref w := [x, x1], r := heap w r @ [x, x1])"
    using h1 r dc1 by (simp add: list_extend_def)
  have "r < next_ref ?w2"
    using Cons.prems(2) n2 by simp
  from Cons.IH [OF l this] obtain ts where
    n: "next_ref w' = next_ref ?w2 + length rest" and
    ts: "length ts = 2 * length rest" "heap w' r = heap ?w2 r @ ts" and
    fr: "\<forall>q < next_ref ?w2. q \<noteq> r \<longrightarrow> heap w' q = heap ?w2 q" and
    m: "map edc_conv1 ds = map edc_conv1 rest" "map edc_conv2 ds = map edc_conv2 rest"
    by blast
  have a: "next_ref w' = next_ref w + length (dc # rest)"
    using n n2 by simp
  have b: "length ([x, x1] @ ts) = 2 * length (dc # rest) \<and> heap w' r = heap w r @ ([x, x1] @ ts)"
    using ts h2 by simp
  have c: "\<forall>q < next_ref w. q \<noteq> r \<longrightarrow> heap w' q = heap w q"
  proof (intro allI impI)
    fix q assume q: "q < next_ref w" "q \<noteq> r"
    then have "heap w' q = heap ?w2 q"
      using fr n2 by simp
    then show "heap w' q = heap w q"
      using h2 q by simp
  qed
  have e: "map edc_conv1 dcs' = map edc_conv1 (dc # rest) \<and> map edc_conv2 dcs' = map edc_conv2 (dc # rest)"
    using m d dc1 by simp
  from a b c e show ?case by blast
qed

lemma Encoder_forward_effect:
  assumes "Encoder_forward enc img w = Inr (y, enc', w')"
  shows "enc_skip enc' = next_ref w \<and> next_ref w < next_ref w'
       \<and> (\<forall>q < next_ref w. heap w' q = heap w q)
       \<and> length (heap w' (next_ref w))
           = 1 + 2 * length (double_convolutions enc) + length (ebc_convolutions (bottleneck enc))
       \<and> disabled_skip_connections enc' = disabled_skip_connections enc
       \<and> n_skip_connections enc' = n_skip_connections enc"
proof -
  let ?r = "next_ref w"
  let ?w1 = "snd (new_list [] w)"
  from assms obtain x1 ie w2 x2 dcs w4 bn w5 where
    f1: "ImageEncoding_forward (image_encoder enc) img ?w1 = Inr (x1, ie, w2)" and
    f2: "double_conv_loop ?r (double_convolutions enc) x1 (list_extend ?r (ie_skip ie) w2)
           = Inr (x2, dcs, w4)" and
    f3: "EncBottleneckConv_forward (bottleneck enc) x2 w4 = Inr (y, bn, w5)" and
    e: "enc' = enc\<lparr>enc_skip := ?r, image_encoder := ie, double_convolutions := dcs, bottleneck := bn\<rparr>" and
    w: "w' = list_extend ?r (ebc_skip bn) w5"
    by (auto simp: Encoder_forward_def reset_skip_connections_def new_list_def Let_def split_beta
          elim!: bindE_InrE)
  from ImageEncoding_forward_effect [OF f1] obtain e0 where
    ie: "ie = (image_encoder enc)\<lparr>ie_skip := ?r + 1\<rparr>" and
    n2: "next_ref w2 = ?r + 2" and
    h2: "heap w2 = (heap w)(?r := [], ?r + 1 := [e0])"
    by (auto simp: new_list_def)
  let ?w3 = "list_extend ?r (ie_skip ie) w2"
  have n3: "next_ref ?w3 = ?r + 2"
    using n2 by (simp add: list_extend_def)
  have h3: "heap ?w3 = (heap w)(?r := [e0], ?r + 1 := [e0])"
    using h2 ie by (auto simp: list_extend_def)
  have "?r < next_ref ?w3"
    using n3 by simp
  from double_conv_loop_effect [OF f2 this] obtain ts where
    n4: "next_ref w4 = ?r + 2 + length (double_convolutions enc)" and
    ts: "length ts = 2 * length (double_convolutions enc)" "heap w4 ?r = [e0] @ ts" and
    fr4: "\<forall>q < ?r + 2. q \<noteq> ?r \<longrightarrow> heap w4 q = heap ?w3 q"
    using n3 h3 by auto
  from EncBottleneckConv_forward_effect [OF f3] obtain bs where
    bn: "bn = (bottleneck enc)\<lparr>ebc_skip := next_ref w4\<rparr>" and
    n5: "next_ref w5 = next_ref w4 + 1" and
    bs: "length bs = length (ebc_convolutions (bottleneck enc))" and
    h5: "heap w5 = (heap w4)(next_ref w4 := bs)"
    by blast
  have ne: "next_ref w4 \<noteq> ?r"
    using n4 by simp
  have hw: "heap w' = (heap w4)(next_ref w4 := bs, ?r := [e0] @ ts @ bs)"
    using w h5 bn ts(2) ne by (simp add: list_extend_def)
  have nw: "next_ref w' = next_ref w4 + 1"
    using w n5 by (simp add: list_extend_def)
  have a: "enc_skip enc' = ?r"
    using e by simp
  have b: "?r < next_ref w'"
    using nw n4 by simp
  have c: "\<forall>q < ?r. heap w' q = heap w q"
  proof (intro allI impI)
    fix q assume q: "q < ?r"
    then have "heap w' q = heap w4 q"
      using hw n4 by simp
    also have "\<dots> = heap ?w3 q"
      using fr4 q by simp
    also have "\<dots> = heap w q"
      using h3 q by simp
    finally show "heap w' q = heap w q" .
  qed
  have d: "length (heap w' ?r)
      = 1 + 2 * length (double_convolutions enc) + length (ebc_convolutions (bottleneck enc))"
    using hw ts(1) bs by simp
  have f: "disabled_skip_connections enc' = disabled_skip_connections enc
         \<and> n_skip_connections enc' = n_skip_connections enc"
    using e by simp
  from a b c d f show ?thesis by blast
qed

lemma list_setitem_effect:
  assumes "list_setitem r i v w = Inr w'"
  shows "next_ref w' = next_ref w \<and> (\<forall>q. q \<noteq> r \<longrightarrow> heap w' q = heap w q)
       \<and> length (heap w' r) = length (heap w r)"
  using assms by (auto simp: list_setitem_def Let_def split: if_splits)

lemma disable_loop_effect:
  "disable_loop r ds w = Inr w' \<Longrightarrow>
     next_ref w' = next_ref w \<and> (\<forall>q. q \<noteq> r \<longrightarrow> heap w' q = heap w q)
   \<and> length (heap w' r) = length (heap w r)"
proof (induction ds arbitrary: w)
  case Nil
  then show ?case by simp
next
  case (Cons i ds)
  from Cons.prems obtain w1 where
    s: "list_setitem r i EMPTY_TENSOR w = Inr w1" and l: "disable_loop r ds w1 = Inr w'"
    by (auto elim!: bindE_InrE)
  from list_setitem_effect [OF s] Cons.IH [OF l] show ?case by simp
qed

lemma Encoder_get_skip_connections_effect:
  assumes "Encoder_get_skip_connections enc w = Inr (r, w')"
  shows "r = enc_skip enc \<and> next_ref w' = next_ref w
       \<and> (\<forall>q. q \<noteq> r \<longrightarrow> heap w' q = heap w q)
       \<and> length (heap w' r) = length (heap w r)"
proof -
  from assms obtain w1 where "disable_loop (enc_skip enc) (disabled_skip_connections enc) w = Inr w1"
    "r = enc_skip enc" "w' = w1"
    by (auto simp: Encoder_get_skip_connections_def elim!: bindE_InrE)
  with disable_loop_effect [of "enc_skip enc" "disabled_skip_connections enc" w w1]
  show ?thesis by simp
qed

subsection \<open>The orchestrators\<close>


lemma another_net_runs:
  "\<exists>res. SwapNet_forward (fst another_net) (zeros [2, 3, 16, 16]) (zeros [2, 3, 16, 16])
           (zeros [2, 3, 16, 16]) (snd another_net) = Inr res"
  unfolding another_net_def
  by (simp add: init_defs fwd_defs f32_sum_def f32_exact upt3 numeral_3_eq_3 Let_def)

lemma groundtruth_net_runs:
  "\<exists>res. GroundtruthEnvmapSwapNet_forward (fst groundtruth_net) (zeros [1, 3, 256, 256])
           (zeros [1, 3, 256, 256]) gt (snd groundtruth_net) = Inr res"
  unfolding groundtruth_net_def
  by (simp add: init_defs fwd_defs upt3 numeral_3_eq_3 Let_def)

text \<open>
  Claim C6.  A successful \<open>SwapNet.forward\<close> is exactly this: the image, the target and
  the ground truth are encoded in that order by the one encoder; the skip stack is
  retrieved right after encoding the image and the two later encoder calls leave that
  list as it was; the three latents are split; the decoder is called once, on
  \<open>assemble(image_scene, target_light)\<close> and the image's stack; and the result is the
  relit image followed by the three light and the three scene components.
\<close>

theorem SwapNet_forward_decodes_image_stack:
  assumes "SwapNet_forward self img target groundtruth w
             = Inr ((relit, image_light, target_light, groundtruth_light, image_scene, target_scene, groundtruth_scene), self', w')"
  shows "\<exists>image_latent enc1 w1 r w2 target_latent enc2 w3 groundtruth_latent enc3 w4 swapped.
           Encoder_forward (sn_encode self) img w = Inr (image_latent, enc1, w1)
         \<and> Encoder_get_skip_connections enc1 w1 = Inr (r, w2)
         \<and> Encoder_forward enc1 target w2 = Inr (target_latent, enc2, w3)
         \<and> Encoder_forward enc2 groundtruth w3 = Inr (groundtruth_latent, enc3, w4)
         \<and> sn_split self image_latent = Inr (image_scene, image_light)
         \<and> sn_split self target_latent = Inr (target_scene, target_light)
         \<and> sn_split self groundtruth_latent = Inr (groundtruth_scene, groundtruth_light)
         \<and> sn_assemble self image_scene target_light = Inr swapped
         \<and> heap w3 r = heap w2 r \<and> heap w4 r = heap w2 r
         \<and> Decoder_forward (sn_decode self) swapped r w4 = Inr (relit, w')"
proof -
  from assms obtain image_latent enc1 w1 r w2 target_latent enc2 w3 groundtruth_latent enc3 w4
      swapped where
    e1: "Encoder_forward (sn_encode self) img w = Inr (image_latent, enc1, w1)" and
    g: "Encoder_get_skip_connections enc1 w1 = Inr (r, w2)" and
    e2: "Encoder_forward enc1 target w2 = Inr (target_latent, enc2, w3)" and
    e3: "Encoder_forward enc2 groundtruth w3 = Inr (groundtruth_latent, enc3, w4)" and
    s: "sn_split self image_latent = Inr (image_scene, image_light)"
       "sn_split self target_latent = Inr (target_scene, target_light)"
       "sn_split self groundtruth_latent = Inr (groundtruth_scene, groundtruth_light)" and
    a: "sn_assemble self image_scene target_light = Inr swapped" and
    d: "Decoder_forward (sn_decode self) swapped r w4 = Inr (relit, w')"
    unfolding SwapNet_forward_def
    by (auto simp: split_beta elim!: bindE_InrE)
  from Encoder_forward_effect [OF e1] have r1: "enc_skip enc1 = next_ref w" "next_ref w < next_ref w1"
    by simp_all
  from Encoder_get_skip_connections_effect [OF g] have r2: "r = enc_skip enc1" "next_ref w2 = next_ref w1"
    by simp_all
  have lt2: "r < next_ref w2"
    using r1 r2 by simp
  from Encoder_forward_effect [OF e2] have
    f3: "\<forall>q < next_ref w2. heap w3 q = heap w2 q" and n3: "next_ref w2 < next_ref w3"
    by simp_all
  from Encoder_forward_effect [OF e3] have
    f4: "\<forall>q < next_ref w3. heap w4 q = heap w3 q"
    by simp
  have h3: "heap w3 r = heap w2 r"
    using f3 lt2 by simp
  have h4: "heap w4 r = heap w2 r"
    using f4 lt2 n3 h3 by simp
  from e1 g e2 e3 s a h3 h4 d show ?thesis by blast
qed


theorem SwapNet_forward_decodes_image_stack_witness:
  "\<exists>res image_latent enc1 w1 r w2 target_latent enc2 w3 groundtruth_latent enc3 w4 swapped.
       SwapNet_forward (fst another_net) (zeros [2, 3, 16, 16]) (zeros [2, 3, 16, 16])
         (zeros [2, 3, 16, 16]) (snd another_net) = Inr res
     \<and> Encoder_forward (sn_encode (fst another_net)) (zeros [2, 3, 16, 16]) (snd another_net)
         = Inr (image_latent, enc1, w1)
     \<and> Encoder_get_skip_connections enc1 w1 = Inr (r, w2)
     \<and> Encoder_forward enc1 (zeros [2, 3, 16, 16]) w2 = Inr (target_latent, enc2, w3)
     \<and> Encoder_forward enc2 (zeros [2, 3, 16, 16]) w3 = Inr (groundtruth_latent, enc3, w4)
     \<and> sn_assemble (fst another_net) (fst (snd (snd (snd (snd (fst res))))))
          (fst (snd (snd (fst res)))) = Inr swapped
     \<and> heap w3 r = heap w2 r \<and> heap w4 r = heap w2 r
     \<and> Decoder_forward (sn_decode (fst another_net)) swapped r w4
         = Inr (fst (fst res), snd (snd res))"
proof -
  from another_net_runs obtain res where
    run: "SwapNet_forward (fst another_net) (zeros [2, 3, 16, 16]) (zeros [2, 3, 16, 16])
            (zeros [2, 3, 16, 16]) (snd another_net) = Inr res"
    by blast
  obtain relit image_light target_light groundtruth_light image_scene target_scene
      groundtruth_scene self' w' where
    res: "res = ((relit, image_light, target_light, groundtruth_light,
                  image_scene, target_scene, groundtruth_scene), self', w')"
    by (metis prod.collapse)
  from SwapNet_forward_decodes_image_stack [OF run [unfolded res]] run res
  show ?thesis by auto
qed

text \<open>
  Claim C9.  \<open>GroundtruthEnvmapSwapNet.forward\<close> never reads its ground-truth argument: any
  two ground-truth tensors give the same result.  When the pass succeeds, its outputs
  are the envmaps split from the encodings of the image and of the target, and the
  relit image is the decoding of \<open>assemble(None, target envmap)\<close> against the skip stack
  retrieved after encoding the image, which the encoding of the target leaves as it was.
\<close>

theorem GroundtruthEnvmapSwapNet_forward_ignores_groundtruth:
  assumes "GroundtruthEnvmapSwapNet_forward self img target groundtruth w
             = Inr ((relit, predicted_image_envmap, predicted_target_envmap), self', w')"
  shows "GroundtruthEnvmapSwapNet_forward self img target groundtruth' w
           = GroundtruthEnvmapSwapNet_forward self img target groundtruth w
       \<and> (\<exists>image_latent enc1 w1 r w2 scene1 target_latent enc2 w3 scene2 swapped.
             Encoder_forward (sn_encode self) img w = Inr (image_latent, enc1, w1)
           \<and> Encoder_get_skip_connections enc1 w1 = Inr (r, w2)
           \<and> sn_split self image_latent = Inr (scene1, predicted_image_envmap)
           \<and> Encoder_forward enc1 target w2 = Inr (target_latent, enc2, w3)
           \<and> sn_split self target_latent = Inr (scene2, predicted_target_envmap)
           \<and> sn_assemble self None predicted_target_envmap = Inr swapped
           \<and> heap w3 r = heap w2 r
           \<and> Decoder_forward (sn_decode self) swapped r w3 = Inr (relit, w'))"
proof
  show "GroundtruthEnvmapSwapNet_forward self img target groundtruth' w
          = GroundtruthEnvmapSwapNet_forward self img target groundtruth w"
    by (simp add: GroundtruthEnvmapSwapNet_forward_def)
next
  from assms obtain image_latent enc1 w1 r w2 scene1 target_latent enc2 w3 scene2 swapped where
    e1: "Encoder_forward (sn_encode self) img w = Inr (image_latent, enc1, w1)" and
    g: "Encoder_get_skip_connections enc1 w1 = Inr (r, w2)" and
    s1: "sn_split self image_latent = Inr (scene1, predicted_image_envmap)" and
    e2: "Encoder_forward enc1 target w2 = Inr (target_latent, enc2, w3)" and
    s2: "sn_split self target_latent = Inr (scene2, predicted_target_envmap)" and
    a: "sn_assemble self None predicted_target_envmap = Inr swapped" and
    d: "Decoder_forward (sn_decode self) swapped r w3 = Inr (relit, w')"
    unfolding GroundtruthEnvmapSwapNet_forward_def
    by (auto simp: split_beta elim!: bindE_InrE)
  from Encoder_forward_effect [OF e1] have r1: "enc_skip enc1 = next_ref w" "next_ref w < next_ref w1"
    by simp_all
  from Encoder_get_skip_connections_effect [OF g] have r2: "r = enc_skip enc1" "next_ref w2 = next_ref w1"
    by simp_all
  from Encoder_forward_effect [OF e2] have "\<forall>q < next_ref w2. heap w3 q = heap w2 q"
    by simp
  then have h3: "heap w3 r = heap w2 r"
    using r1 r2 by simp
  from e1 g s1 e2 s2 a h3 d
  show "\<exists>image_latent enc1 w1 r w2 scene1 target_latent enc2 w3 scene2 swapped.
             Encoder_forward (sn_encode self) img w = Inr (image_latent, enc1, w1)
           \<and> Encoder_get_skip_connections enc1 w1 = Inr (r, w2)
           \<and> sn_split self image_latent = Inr (scene1, predicted_image_envmap)
           \<and> Encoder_forward enc1 target w2 = Inr (target_latent, enc2, w3)
           \<and> sn_split self target_latent = Inr (scene2, predicted_target_envmap)
           \<and> sn_assemble self None predicted_target_envmap = Inr swapped
           \<and> heap w3 r = heap w2 r
           \<and> Decoder_forward (sn_decode self) swapped r w3 = Inr (relit, w')"
    by blast
qed

theorem GroundtruthEnvmapSwapNet_forward_ignores_groundtruth_witness:
  "\<exists>res. GroundtruthEnvmapSwapNet_forward (fst groundtruth_net) (zeros [1, 3, 256, 256])
            (zeros [1, 3, 256, 256]) (zeros [1, 3, 256, 256]) (snd groundtruth_net) = Inr res
        \<and> GroundtruthEnvmapSwapNet_forward (fst groundtruth_net) (zeros [1, 3, 256, 256])
            (zeros [1, 3, 256, 256]) (zeros [7, 3, 1, 1]) (snd groundtruth_net) = Inr res
        \<and> (\<exists>(w2 :: int world) r w3 swapped.
              sn_assemble (fst groundtruth_net) None (snd (snd (fst res))) = Inr swapped
            \<and> heap w3 r = heap w2 r
            \<and> Decoder_forward (sn_decode (fst groundtruth_net)) swapped r w3
                = Inr (fst (fst res), snd (snd res)))"
proof -
  from groundtruth_net_runs [of "zeros [1, 3, 256, 256]"] obtain res where
    run: "GroundtruthEnvmapSwapNet_forward (fst groundtruth_net) (zeros [1, 3, 256, 256])
            (zeros [1, 3, 256, 256]) (zeros [1, 3, 256, 256]) (snd groundtruth_net) = Inr res"
    by blast
  obtain relit e1 e2 self' w' where res: "res = ((relit, e1, e2), self', w')"
    by (metis prod.collapse)
  note th = GroundtruthEnvmapSwapNet_forward_ignores_groundtruth
         [OF run [unfolded res], of "zeros [7, 3, 1, 1]"]
  have eq: "GroundtruthEnvmapSwapNet_forward (fst groundtruth_net) (zeros [1, 3, 256, 256])
            (zeros [1, 3, 256, 256]) (zeros [7, 3, 1, 1]) (snd groundtruth_net) = Inr res"
    using th run by simp
  from th obtain image_latent enc1 w1 r w2 scene1 target_latent enc2 w3 scene2 swapped where
    "Encoder_forward (sn_encode (fst groundtruth_net)) (zeros [1, 3, 256, 256])
       (snd groundtruth_net) = Inr (image_latent, enc1, w1)"
    "Encoder_get_skip_connections enc1 w1 = Inr (r, w2)"
    "sn_split (fst groundtruth_net) image_latent = Inr (scene1, e1)"
    "Encoder_forward enc1 (zeros [1, 3, 256, 256]) w2 = Inr (target_latent, enc2, w3)"
    "sn_split (fst groundtruth_net) target_latent = Inr (scene2, e2)" and
    a: "sn_assemble (fst groundtruth_net) None e2 = Inr swapped" and
    h: "heap w3 r = heap w2 r" and
    d: "Decoder_forward (sn_decode (fst groundtruth_net)) swapped r w3 = Inr (relit, w')"
    by (elim conjE exE) (rule that, assumption+)
  have inner: "\<exists>(w2 :: int world) r w3 swapped.
              sn_assemble (fst groundtruth_net) None (snd (snd (fst res))) = Inr swapped
            \<and> heap w3 r = heap w2 r
            \<and> Decoder_forward (sn_decode (fst groundtruth_net)) swapped r w3
                = Inr (fst (fst res), snd (snd res))"
    by (rule exI [of _ w2], rule exI [of _ r], rule exI [of _ w3], rule exI [of _ swapped])
       (simp add: a h d res)
  show ?thesis
    by (rule exI [of _ res]) (intro conjI run eq inner)
qed

subsection \<open>The encoder bottleneck\<close>


lemma bottleneck_loop_replicate:
  "bottleneck_loop r (replicate k m) x w =
     (case iterate_pushing (block_forward m) k x (heap w r) of
        Inl e \<Rightarrow> Inl e
      | Inr (y, st) \<Rightarrow> Inr (y, w\<lparr>heap := (heap w)(r := st)\<rparr>))"
proof (induction k arbitrary: x w)
  case 0
  show ?case by simp
next
  case (Suc k)
  show ?case
  proof (cases "block_forward m x")
    case (Inl e)
    then show ?thesis by (simp add: Let_def)
  next
    case (Inr y)
    have u: "(list_append r x w)\<lparr>heap := (heap (list_append r x w))(r := st)\<rparr>
               = w\<lparr>heap := (heap w)(r := st)\<rparr>" for st
      by (simp add: list_append_def)
    have hr: "heap (list_append r x w) r = heap w r @ [x]"
      by (simp add: list_append_def)
    show ?thesis
    proof (cases "iterate_pushing (block_forward m) k y (heap w r @ [x])")
      case (Inl e)
      then show ?thesis
        using Inr by (simp add: Let_def Suc.IH hr)
    next
      case (Inr p)
      obtain z st where p: "p = (z, st)" by (cases p)
      show ?thesis
        using \<open>block_forward m x = Inr y\<close> Inr p by (simp add: Let_def Suc.IH hr u)
    qed
  qed
qed

text \<open>
  Claim C10.  \<open>EncBottleneckConv\<close> constructs one conv/batchnorm/PReLU block and holds
  \<open>depth - 1\<close> references to it, so every stage applies the same parameters; its forward
  pass binds a new skip list and iterates that one block \<open>depth - 1\<close> times, pushing the
  current input before each application.
\<close>

theorem EncBottleneckConv_shares_one_block:
  "\<exists>single_conv.
       ident single_conv = next_obj w \<and> fn single_conv = kernel w (next_obj w)
     \<and> c_in single_conv = in_channels \<and> c_out single_conv = in_channels
     \<and> next_obj (snd (EncBottleneckConv_init in_channels depth w)) = next_obj w + 1
     \<and> ebc_convolutions (fst (EncBottleneckConv_init in_channels depth w))
         = replicate (nat (depth - 1)) single_conv
     \<and> (\<forall>x w1. EncBottleneckConv_forward (fst (EncBottleneckConv_init in_channels depth w)) x w1
           = (case iterate_pushing (block_forward single_conv) (nat (depth - 1)) x [] of
                Inl e \<Rightarrow> Inl e
              | Inr (y, stack) \<Rightarrow>
                  Inr (y, (fst (EncBottleneckConv_init in_channels depth w))\<lparr>ebc_skip := next_ref w1\<rparr>,
                       w1\<lparr>heap := (heap w1)(next_ref w1 := stack), next_ref := next_ref w1 + 1\<rparr>)))"
proof -
  define single_conv where
    "single_conv = fst (new_block False in_channels in_channels 3 1 1 True PReLU (snd (new_list [] w)))"
  have init: "ebc_convolutions (fst (EncBottleneckConv_init in_channels depth w))
                = replicate (nat (depth - 1)) single_conv"
    by (simp add: EncBottleneckConv_init_def build_bottleneck_convolutions_def split_beta
          single_conv_def)
  have fwd: "EncBottleneckConv_forward (fst (EncBottleneckConv_init in_channels depth w)) x w1
           = (case iterate_pushing (block_forward single_conv) (nat (depth - 1)) x [] of
                Inl e \<Rightarrow> Inl e
              | Inr (y, stack) \<Rightarrow>
                  Inr (y, (fst (EncBottleneckConv_init in_channels depth w))\<lparr>ebc_skip := next_ref w1\<rparr>,
                       w1\<lparr>heap := (heap w1)(next_ref w1 := stack), next_ref := next_ref w1 + 1\<rparr>))"
    for x w1
    unfolding EncBottleneckConv_forward_def init bottleneck_loop_replicate
    by (simp add: reset_skip_connections_def new_list_def split: sum.splits)
  show ?thesis
    apply (rule exI [of _ single_conv])
    apply (intro conjI allI fwd init)
    apply (simp_all add: single_conv_def new_block_def new_list_def EncBottleneckConv_init_def
             build_bottleneck_convolutions_def split_beta)
    done
qed

subsection \<open>Shapes through the encoder\<close>

lemma block_forward_shape:
  assumes "shape x = [N, C, H, W]" and "C = c_in b"
    and "ksize b \<le> (if up2 b then 2 * H else H) + 2 * padding b"
    and "ksize b \<le> (if up2 b then 2 * W else W) + 2 * padding b"
    and "training b \<longrightarrow> N * conv_out b H * conv_out b W \<noteq> 1"
  shows "\<exists>y. block_forward b x = Inr y \<and> shape y = [N, c_out b, conv_out b H, conv_out b W]"
  using assms by (auto simp: block_forward_def Let_def)

lemma half_up_le: "1 \<le> n \<Longrightarrow> half_up n \<le> n"
  by (simp add: half_up_def)

lemma half_up_pos: "1 \<le> n \<Longrightarrow> 1 \<le> half_up n"
  by (simp add: half_up_def)

lemma more_than_one_value:
  assumes "1 \<le> H" and "1 \<le> W" and "1 < N * half_up H * half_up W"
  shows "1 < N * H * W"
proof -
  have "N * half_up H * half_up W \<le> N * H * W"
    using half_up_le [OF assms(1)] half_up_le [OF assms(2)] by (intro mult_le_mono) simp_all
  with assms(3) show ?thesis by linarith
qed

lemma more_than_one_ne:
  fixes k :: nat
  shows "(m \<longrightarrow> 1 < k) \<Longrightarrow> t = m \<Longrightarrow> t \<longrightarrow> k \<noteq> 1"
  by auto

lemma block_same:
  assumes "conv_spec b False C C' 3 1 1" and "shape x = [N, C, H, W]"
    and "1 \<le> H" and "1 \<le> W" and "training b \<longrightarrow> N * H * W \<noteq> 1"
  shows "\<exists>y. block_forward b x = Inr y \<and> shape y = [N, C', H, W]"
proof -
  have c: "conv_out b H = H" "conv_out b W = W"
    using assms(1,3,4) by (simp_all add: conv_spec_def conv_out_def)
  from block_forward_shape [of x N C H W b] assms c show ?thesis
    by (simp add: conv_spec_def)
qed

lemma block_7:
  assumes "conv_spec b False C C' 7 1 3" and "shape x = [N, C, H, W]"
    and "1 \<le> H" and "1 \<le> W" and "training b \<longrightarrow> N * H * W \<noteq> 1"
  shows "\<exists>y. block_forward b x = Inr y \<and> shape y = [N, C', H, W]"
proof -
  have c: "conv_out b H = H" "conv_out b W = W"
    using assms(1,3,4) by (simp_all add: conv_spec_def conv_out_def)
  from block_forward_shape [of x N C H W b] assms c show ?thesis
    by (simp add: conv_spec_def)
qed

lemma block_down:
  assumes "conv_spec b False C C' 3 2 1" and "shape x = [N, C, H, W]"
    and "1 \<le> H" and "1 \<le> W" and "training b \<longrightarrow> N * half_up H * half_up W \<noteq> 1"
  shows "\<exists>y. block_forward b x = Inr y \<and> shape y = [N, C', half_up H, half_up W]"
proof -
  have c: "conv_out b H = half_up H" "conv_out b W = half_up W"
    using assms(1,3,4) by (simp_all add: conv_spec_def conv_out_def half_up_def)
  from block_forward_shape [of x N C H W b] assms c show ?thesis
    by (simp add: conv_spec_def)
qed

lemma cat_channels:
  assumes "shape x = [N, C1, H, W]" and "shape y = [N, C2, H, W]"
  shows "\<exists>z. cat [x, y] 1 = Inr z \<and> shape z = [N, C1 + C2, H, W]"
  using assms by (simp add: cat_def wrap_dim_def cat_compatible_def Let_def)

lemma ImageEncoding_forward_shape:
  assumes c1: "conv_spec (ie_conv1 self) False 3 29 7 1 3" "training (ie_conv1 self) = mode"
    and c2: "conv_spec (ie_conv2 self) False 32 64 3 2 1" "training (ie_conv2 self) = mode"
    and x: "shape img = [N, 3, H, W]" and hw: "1 \<le> H" "1 \<le> W"
    and bn: "mode \<longrightarrow> 1 < N * half_up H * half_up W"
  shows "\<exists>y ie w'. ImageEncoding_forward self img w = Inr (y, ie, w')
           \<and> shape y = [N, 64, half_up H, half_up W]"
proof -
  have big: "mode \<longrightarrow> 1 < N * H * W"
    using more_than_one_value [OF hw] bn by blast
  from block_7 [OF c1(1) x hw more_than_one_ne [OF big c1(2)]] obtain x1 where
    x1: "block_forward (ie_conv1 self) img = Inr x1" "shape x1 = [N, 29, H, W]"
    by blast
  from cat_channels [OF x1(2) x] obtain e where
    e: "cat [x1, img] 1 = Inr e" "shape e = [N, 32, H, W]"
    by auto
  from block_down [OF c2(1) e(2) hw more_than_one_ne [OF bn c2(2)]] obtain y where
    y: "block_forward (ie_conv2 self) e = Inr y" "shape y = [N, 64, half_up H, half_up W]"
    by blast
  show ?thesis
    using x1 e y by (simp add: ImageEncoding_forward_def split_beta)
qed

lemma EncDoubleConv_forward_shape:
  assumes c1: "conv_spec (edc_conv1 self) False C C 3 1 1" "training (edc_conv1 self) = mode"
    and c2: "conv_spec (edc_conv2 self) False C C' 3 2 1" "training (edc_conv2 self) = mode"
    and x: "shape x = [N, C, H, W]" and hw: "1 \<le> H" "1 \<le> W"
    and bn: "mode \<longrightarrow> 1 < N * half_up H * half_up W"
  shows "\<exists>y dc w'. EncDoubleConv_forward self x w = Inr (y, dc, w')
           \<and> shape y = [N, C', half_up H, half_up W]"
proof -
  have big: "mode \<longrightarrow> 1 < N * H * W"
    using more_than_one_value [OF hw] bn by blast
  from block_same [OF c1(1) x hw more_than_one_ne [OF big c1(2)]] obtain x1 where
    x1: "block_forward (edc_conv1 self) x = Inr x1" "shape x1 = [N, C, H, W]"
    by blast
  from block_down [OF c2(1) x1(2) hw more_than_one_ne [OF bn c2(2)]] obtain y where
    y: "block_forward (edc_conv2 self) x1 = Inr y" "shape y = [N, C', half_up H, half_up W]"
    by blast
  show ?thesis
    using x1 y by (simp add: EncDoubleConv_forward_def split_beta Let_def)
qed

lemma bottleneck_loop_shape:
  assumes "\<forall>b \<in> set ms. conv_spec b False C C 3 1 1 \<and> training b = mode"
    and "shape x = [N, C, H, W]" and "1 \<le> H" and "1 \<le> W"
    and "mode \<longrightarrow> N * H * W \<noteq> 1"
  shows "\<exists>y w'. bottleneck_loop r ms x w = Inr (y, w') \<and> shape y = [N, C, H, W]"
  using assms
proof (induction ms arbitrary: x w)
  case Nil
  then show ?case by simp
next
  case (Cons m ms)
  have m: "conv_spec m False C C 3 1 1" "training m = mode"
    using Cons.prems(1) by simp_all
  from block_same [OF m(1) Cons.prems(2,3,4)] m(2) Cons.prems(5) obtain y where
    y: "block_forward m x = Inr y" "shape y = [N, C, H, W]"
    by auto
  have "\<forall>b \<in> set ms. conv_spec b False C C 3 1 1 \<and> training b = mode"
    using Cons.prems(1) by simp
  from Cons.IH [OF this y(2) Cons.prems(3,4,5)] y(1) show ?case
    by (simp add: Let_def)
qed

lemma EncBottleneckConv_forward_shape:
  assumes "\<forall>b \<in> set (ebc_convolutions self). conv_spec b False C C 3 1 1 \<and> training b = mode"
    and "shape x = [N, C, H, W]" and "1 \<le> H" and "1 \<le> W"
    and "mode \<longrightarrow> N * H * W \<noteq> 1"
  shows "\<exists>y bn w'. EncBottleneckConv_forward self x w = Inr (y, bn, w') \<and> shape y = [N, C, H, W]"
proof -
  obtain r w1 where r: "reset_skip_connections w = (r, w1)"
    by (cases "reset_skip_connections w")
  from bottleneck_loop_shape [OF assms, of r w1] obtain y w' where
    "bottleneck_loop r (ebc_convolutions self) x w1 = Inr (y, w')" "shape y = [N, C, H, W]"
    by auto
  then show ?thesis
    using r by (simp add: EncBottleneckConv_forward_def)
qed

lemma half_up_twice: "half_up ((n + (k - 1)) div k) = (n + (2 * k - 1)) div (2 * k)" if "1 \<le> k"
proof -
  have "half_up ((n + (k - 1)) div k) = ((n + (k - 1)) div k + 1) div 2"
    by (simp add: half_up_def)
  also have "(n + (k - 1)) div k + 1 = (n + (k - 1) + k) div k"
    using that by (subst div_add_self2) simp_all
  also have "(n + (k - 1) + k) div k div 2 = (n + (k - 1) + k) div (k * 2)"
    by (simp add: div_mult2_eq)
  also have "n + (k - 1) + k = n + (2 * k - 1)"
    using that by simp
  finally show ?thesis
    by (simp add: mult.commute)
qed

lemma half_up_16: "half_up (half_up (half_up (half_up n))) = (n + 15) div 16"
proof -
  have 1: "half_up n = (n + 1) div 2"
    by (simp add: half_up_def)
  have 2: "half_up ((n + 1) div 2) = (n + 3) div 4"
    using half_up_twice [of 2 n] by simp
  have 3: "half_up ((n + 3) div 4) = (n + 7) div 8"
    using half_up_twice [of 4 n] by simp
  have 4: "half_up ((n + 7) div 8) = (n + 15) div 16"
    using half_up_twice [of 8 n] by simp
  show ?thesis
    by (simp only: 1 2 3 4)
qed

lemma default_encoder_layers:
  fixes w0 :: "'a world" and mode :: bool and disabled :: "int list option"
  defines "enc \<equiv> Encoder_train mode (fst (Encoder_init 3 4 disabled w0))"
  shows "conv_spec (ie_conv1 (image_encoder enc)) False 3 29 7 1 3"
    and "conv_spec (ie_conv2 (image_encoder enc)) False 32 64 3 2 1"
    and "training (ie_conv1 (image_encoder enc)) = mode"
    and "training (ie_conv2 (image_encoder enc)) = mode"
    and "\<exists>d0 d1 d2. double_convolutions enc = [d0, d1, d2]
          \<and> conv_spec (edc_conv1 d0) False 64 64 3 1 1 \<and> conv_spec (edc_conv2 d0) False 64 128 3 2 1
          \<and> conv_spec (edc_conv1 d1) False 128 128 3 1 1 \<and> conv_spec (edc_conv2 d1) False 128 256 3 2 1
          \<and> conv_spec (edc_conv1 d2) False 256 256 3 1 1 \<and> conv_spec (edc_conv2 d2) False 256 512 3 2 1
          \<and> training (edc_conv1 d0) = mode \<and> training (edc_conv2 d0) = mode
          \<and> training (edc_conv1 d1) = mode \<and> training (edc_conv2 d1) = mode
          \<and> training (edc_conv1 d2) = mode \<and> training (edc_conv2 d2) = mode"
    and "\<forall>b \<in> set (ebc_convolutions (bottleneck enc)).
            conv_spec b False 512 512 3 1 1 \<and> training b = mode"
  unfolding enc_def
  by (simp_all add: Encoder_train_def block_train_def Encoder_init_def ImageEncoding_init_def
        EncDoubleConv_init_def EncBottleneckConv_init_def build_bottleneck_convolutions_def
        build_encoder_convolutions_block_def new_list_def new_block_def py_range_def
        conv_spec_def split_beta Let_def upt_rec numeral_3_eq_3)

text \<open>
  Claim C1, as amended.  For the default configuration (three double-convolution stages,
  bottleneck depth four), in training or in evaluation mode, \<open>Encoder.forward\<close> maps
  every image tensor of shape \<open>[N, 3, H, W]\<close> with \<open>H \<ge> 1\<close> and \<open>W \<ge> 1\<close> to a latent of
  shape \<open>[N, 512, \<lceil>H/16\<rceil>, \<lceil>W/16\<rceil>]\<close> (four stride-2 convolutions, each giving
  \<open>(n + 1) div 2\<close>), provided that in training mode the latent has more than one value per
  channel: \<open>N * \<lceil>H/16\<rceil> * \<lceil>W/16\<rceil> > 1\<close>.
\<close>

theorem Encoder_forward_latent_shape:
  fixes w0 w :: "'a world"
  assumes x: "shape img = [N, 3, H, W]" and hw: "1 \<le> H" "1 \<le> W"
    and bn: "mode \<longrightarrow> 1 < N * ((H + 15) div 16) * ((W + 15) div 16)"
  shows "result_shape (Encoder_forward (Encoder_train mode (fst (Encoder_init 3 4 disabled w0))) img w)
           = Inr [N, 512, (H + 15) div 16, (W + 15) div 16]"
proof -
  define enc where "enc = Encoder_train mode (fst (Encoder_init 3 4 disabled w0))"
  define h1 h2 h3 h4 where "h1 = half_up H" and "h2 = half_up h1" and "h3 = half_up h2"
    and "h4 = half_up h3"
  define v1 v2 v3 v4 where "v1 = half_up W" and "v2 = half_up v1" and "v3 = half_up v2"
    and "v4 = half_up v3"
  note hv = h1_def h2_def h3_def h4_def v1_def v2_def v3_def v4_def
  have h16: "h4 = (H + 15) div 16" "v4 = (W + 15) div 16"
    unfolding hv by (rule half_up_16)+
  have p1: "1 \<le> h1" "1 \<le> v1"
    unfolding h1_def v1_def using hw by (simp_all only: half_up_pos)
  have p2: "1 \<le> h2" "1 \<le> v2"
    unfolding h2_def v2_def using p1 by (simp_all only: half_up_pos)
  have p3: "1 \<le> h3" "1 \<le> v3"
    unfolding h3_def v3_def using p2 by (simp_all only: half_up_pos)
  have p4: "1 \<le> h4" "1 \<le> v4"
    unfolding h4_def v4_def using p3 by (simp_all only: half_up_pos)
  note pos = p1 p2 p3 p4
  have b4: "mode \<longrightarrow> 1 < N * h4 * v4"
    using bn h16 by simp
  have b3: "mode \<longrightarrow> 1 < N * h3 * v3"
    using b4 more_than_one_value [OF pos(5,6), of N] by (auto simp: hv)
  have b2: "mode \<longrightarrow> 1 < N * h2 * v2"
    using b3 more_than_one_value [OF pos(3,4), of N] by (auto simp: hv)
  have b1: "mode \<longrightarrow> 1 < N * h1 * v1"
    using b2 more_than_one_value [OF pos(1,2), of N] by (auto simp: hv)
  have ne4: "mode \<longrightarrow> N * h4 * v4 \<noteq> 1"
    using b4 by auto
  note L = default_encoder_layers [of mode disabled w0, folded enc_def]
  from L(5) obtain d0 d1 d2 where
    ds: "double_convolutions enc = [d0, d1, d2]" and
    s0: "conv_spec (edc_conv1 d0) False 64 64 3 1 1" "training (edc_conv1 d0) = mode"
        "conv_spec (edc_conv2 d0) False 64 128 3 2 1" "training (edc_conv2 d0) = mode" and
    s1: "conv_spec (edc_conv1 d1) False 128 128 3 1 1" "training (edc_conv1 d1) = mode"
        "conv_spec (edc_conv2 d1) False 128 256 3 2 1" "training (edc_conv2 d1) = mode" and
    s2: "conv_spec (edc_conv1 d2) False 256 256 3 1 1" "training (edc_conv1 d2) = mode"
        "conv_spec (edc_conv2 d2) False 256 512 3 2 1" "training (edc_conv2 d2) = mode"
    by blast
  obtain r wa where r: "reset_skip_connections w = (r, wa)"
    by (cases "reset_skip_connections w")
  from ImageEncoding_forward_shape [OF L(1,3,2,4) x hw, of wa] b1 obtain x1 ie wb where
    i: "ImageEncoding_forward (image_encoder enc) img wa = Inr (x1, ie, wb)"
       "shape x1 = [N, 64, h1, v1]"
    unfolding hv by auto
  define wc where "wc = list_extend r (ie_skip ie) wb"
  from EncDoubleConv_forward_shape [OF s0 i(2) pos(1,2), of wc] b2 obtain x2 e0 wd where
    a: "EncDoubleConv_forward d0 x1 wc = Inr (x2, e0, wd)" "shape x2 = [N, 128, h2, v2]"
    unfolding hv by auto
  define we where "we = list_extend r (edc_skip e0) wd"
  from EncDoubleConv_forward_shape [OF s1 a(2) pos(3,4), of we] b3 obtain x3 e1 wf where
    b: "EncDoubleConv_forward d1 x2 we = Inr (x3, e1, wf)" "shape x3 = [N, 256, h3, v3]"
    unfolding hv by auto
  define wg where "wg = list_extend r (edc_skip e1) wf"
  from EncDoubleConv_forward_shape [OF s2 b(2) pos(5,6), of wg] b4 obtain x4 e2 wh where
    c: "EncDoubleConv_forward d2 x3 wg = Inr (x4, e2, wh)" "shape x4 = [N, 512, h4, v4]"
    unfolding hv by auto
  define wi where "wi = list_extend r (edc_skip e2) wh"
  have loop: "double_conv_loop r (double_convolutions enc) x1 wc = Inr (x4, [e0, e1, e2], wi)"
    using a(1) b(1) c(1) by (simp add: ds Let_def we_def wg_def wi_def)
  from EncBottleneckConv_forward_shape [OF L(6) c(2) pos(7,8) ne4, of wi] obtain y bn' wj where
    d: "EncBottleneckConv_forward (bottleneck enc) x4 wi = Inr (y, bn', wj)"
       "shape y = [N, 512, h4, v4]"
    by auto
  have "result_shape (Encoder_forward enc img w) = Inr [N, 512, h4, v4]"
    using r i(1) loop d by (simp add: Encoder_forward_def result_shape_def Let_def wc_def)
  then show ?thesis
    unfolding enc_def h16 .
qed

theorem Encoder_forward_latent_shape_witness:
  "result_shape (Encoder_forward (Encoder_train True (fst (Encoder_init 3 4 None world0)))
      (zeros [1, 3, 250, 100]) world0) = Inr [1, 512, 16, 7]
   \<and> result_shape (Encoder_forward (Encoder_train False (fst (Encoder_init 3 4 None world0)))
      (zeros [1, 3, 16, 16]) world0) = Inr [1, 512, 1, 1]"
  using Encoder_forward_latent_shape [of "zeros [1, 3, 250, 100]" 1 250 100 True None world0 world0]
    Encoder_forward_latent_shape [of "zeros [1, 3, 16, 16]" 1 16 16 False None world0 world0]
  by (simp add: zeros_def)

theorem Encoder_forward_latent_counterexample:
  "result_shape (Encoder_forward (fst (Encoder_init 3 4 None world0)) (zeros [1, 3, 256, 256])
      (snd (Encoder_init 3 4 None world0))) = Inr [1, 512, 16, 16]
   \<and> [1, 512, 16, 16] \<noteq> [1, 512, 256 div 32, 256 div (32 :: nat)]
   \<and> result_shape (Encoder_forward (fst (Encoder_init 3 4 None world0)) (zeros [1, 3, 16, 16])
      (snd (Encoder_init 3 4 None world0))) = Inl ValueError
   \<and> result_shape (Encoder_forward (fst (Encoder_init 3 4 None world0)) (zeros [1, 3, 0, 16])
      (snd (Encoder_init 3 4 None world0))) = Inl RuntimeError"
  by (simp add: init_defs fwd_defs result_shape_def upt3 numeral_3_eq_3 Let_def)


end
